theory Spec2Isabelle
  imports Complex_Main
begin

section \<open>Numbers, errors and tensors\<close>

text \<open>
  The module \<^verbatim>\<open>sevenn/nn/edge_embedding.py\<close> computes with torch tensors of floating-point
  numbers. The embedding computes with real numbers: an entry of a float tensor is
  \<open>Some x\<close> for the real number \<open>x\<close>, or \<open>None\<close> once the computation has left the real
  numbers (a division by zero, a negative power of zero, the root of a negative number),
  where IEEE arithmetic yields an infinity or a NaN. Rounding and overflow are not
  modelled. Every arithmetic operation maps \<open>None\<close> to \<open>None\<close>: the embedding says
  nothing about a value computed from an infinity or a NaN.
\<close>

type_synonym fl = "real option"

fun fl_add :: "fl \<Rightarrow> fl \<Rightarrow> fl" where
  "fl_add (Some x) (Some y) = Some (x + y)"
| "fl_add _ _ = None"

fun fl_sub :: "fl \<Rightarrow> fl \<Rightarrow> fl" where
  "fl_sub (Some x) (Some y) = Some (x - y)"
| "fl_sub _ _ = None"

fun fl_mul :: "fl \<Rightarrow> fl \<Rightarrow> fl" where
  "fl_mul (Some x) (Some y) = Some (x * y)"
| "fl_mul _ _ = None"

fun fl_div :: "fl \<Rightarrow> fl \<Rightarrow> fl" where
  "fl_div (Some x) (Some y) = (if y = 0 then None else Some (x / y))"
| "fl_div _ _ = None"

fun fl_sqrt :: "fl \<Rightarrow> fl" where
  "fl_sqrt (Some x) = (if x < 0 then None else Some (sqrt x))"
| "fl_sqrt None = None"

fun fl_sin :: "fl \<Rightarrow> fl" where
  "fl_sin (Some x) = Some (sin x)"
| "fl_sin None = None"

text \<open>\<^verbatim>\<open>torch.pow\<close> with an exponent that is a whole number.\<close>

fun fl_pow :: "fl \<Rightarrow> int \<Rightarrow> fl" where
  "fl_pow (Some x) n = (if x = 0 \<and> n < 0 then None else Some (power_int x n))"
| "fl_pow None n = None"

fun fl_sum :: "fl list \<Rightarrow> fl" where
  "fl_sum [] = Some 0"
| "fl_sum (x # xs) = fl_add x (fl_sum xs)"

datatype error =
    KeyError string
  | IndexError
  | RuntimeError
  | ZeroDivisionError

text \<open>
  A tensor is its entries, nested by rank, and its \<^verbatim>\<open>requires_grad\<close> flag. The ranks are
  those of the graph data: up to three dimensions, of dtype float or long. A result of an
  operation requires a gradient when an operand does (grad mode is on, the default).
\<close>

datatype tdata =
    Float1 "fl list"
  | Float2 "fl list list"
  | Float3 "fl list list list"
  | Long1 "int list"
  | Long2 "int list list"
  | Long3 "int list list list"

record tensor =
  entries :: tdata
  requires_grad :: bool

type_synonym AtomGraphDataType = "string \<rightharpoonup> tensor"

text \<open>
  Modelled from the spec: the key constants of \<^verbatim>\<open>sevenn._keys\<close>, a module that is not among
  the source files. They are the names the specification gives the keys of the graph data,
  pairwise different and different from the literal key \<^verbatim>\<open>'_strain'\<close>.
\<close>

definition KEY_POS :: string where "KEY_POS = ''POSITION''"
definition KEY_CELL :: string where "KEY_CELL = ''CELL''"
definition KEY_CELL_SHIFT :: string where "KEY_CELL_SHIFT = ''CELL_SHIFT''"
definition KEY_EDGE_IDX :: string where "KEY_EDGE_IDX = ''EDGE_INDEX''"
definition KEY_BATCH :: string where "KEY_BATCH = ''BATCH''"
definition KEY_EDGE_VEC :: string where "KEY_EDGE_VEC = ''EDGE_VEC''"
definition KEY_EDGE_LENGTH :: string where "KEY_EDGE_LENGTH = ''EDGE_LENGTH''"
definition KEY_EDGE_EMBEDDING :: string where "KEY_EDGE_EMBEDDING = ''EDGE_EMBEDDING''"
definition KEY_EDGE_ATTR :: string where "KEY_EDGE_ATTR = ''EDGE_ATTR''"

subsection \<open>Results and the state of the dictionary\<close>

text \<open>
  A call either returns (\<open>Inr\<close>) or raises (\<open>Inl\<close>). \<^verbatim>\<open>forward\<close> writes into the dictionary
  it is given, so a raise is reported with the dictionary as the call left it.
\<close>

definition bindE :: "'e + 'a \<Rightarrow> ('a \<Rightarrow> 'e + 'b) \<Rightarrow> 'e + 'b" where
  "bindE r f = (case r of Inl e \<Rightarrow> Inl e | Inr x \<Rightarrow> f x)"

definition at_state :: "'s \<Rightarrow> error + 'a \<Rightarrow> (error \<times> 's) + 'a" where
  "at_state s r = (case r of Inl e \<Rightarrow> Inl (e, s) | Inr x \<Rightarrow> Inr x)"

definition getitem :: "AtomGraphDataType \<Rightarrow> string \<Rightarrow> error + tensor" where
  "getitem d k = (case d k of None \<Rightarrow> Inl (KeyError k) | Some t \<Rightarrow> Inr t)"

subsection \<open>Tensor operations\<close>

text \<open>An index into a dimension of size \<open>n\<close>; a negative index counts from the end.\<close>

definition norm_index :: "nat \<Rightarrow> int \<Rightarrow> nat option" where
  "norm_index n i =
     (if 0 \<le> i \<and> i < int n then Some (nat i)
      else if - int n \<le> i \<and> i < 0 then Some (nat (i + int n))
      else None)"

text \<open>\<^verbatim>\<open>xs[idx]\<close> for a long tensor \<open>idx\<close> of one dimension: the rows of \<open>xs\<close> at \<open>idx\<close>.\<close>

fun index_select :: "'a list \<Rightarrow> int list \<Rightarrow> error + 'a list" where
  "index_select xs [] = Inr []"
| "index_select xs (i # js) =
     (case norm_index (length xs) i of
        None \<Rightarrow> Inl IndexError
      | Some k \<Rightarrow>
          (case index_select xs js of
             Inl e \<Rightarrow> Inl e
           | Inr ys \<Rightarrow> Inr (xs ! k # ys)))"

fun chunk3 :: "'a list \<Rightarrow> 'a list list" where
  "chunk3 (a # b # c # xs) = [a, b, c] # chunk3 xs"
| "chunk3 _ = []"

definition numel :: "tdata \<Rightarrow> nat" where
  "numel t =
     (case t of
        Float1 xs \<Rightarrow> length xs
      | Float2 xs \<Rightarrow> length (concat xs)
      | Float3 xs \<Rightarrow> length (concat (concat xs))
      | Long1 xs \<Rightarrow> length xs
      | Long2 xs \<Rightarrow> length (concat xs)
      | Long3 xs \<Rightarrow> length (concat (concat xs)))"

text \<open>\<^verbatim>\<open>t.view(-1, 3, 3)\<close>: the entries in their order, in blocks of three rows of three.\<close>

definition view_blocks :: "tdata \<Rightarrow> tdata" where
  "view_blocks t =
     (case t of
        Float1 xs \<Rightarrow> Float3 (chunk3 (chunk3 xs))
      | Float2 xs \<Rightarrow> Float3 (chunk3 (chunk3 (concat xs)))
      | Float3 xs \<Rightarrow> Float3 (chunk3 (chunk3 (concat (concat xs))))
      | Long1 xs \<Rightarrow> Long3 (chunk3 (chunk3 xs))
      | Long2 xs \<Rightarrow> Long3 (chunk3 (chunk3 (concat xs)))
      | Long3 xs \<Rightarrow> Long3 (chunk3 (chunk3 (concat (concat xs)))))"

definition view_m1_3_3 :: "tensor \<Rightarrow> error + tensor" where
  "view_m1_3_3 t =
     (if numel (entries t) mod 9 = 0
      then Inr (t\<lparr>entries := view_blocks (entries t)\<rparr>)
      else Inl RuntimeError)"

text \<open>\<^verbatim>\<open>t.view(3, 3)\<close>: nine entries as one matrix.\<close>

definition view_matrix :: "tdata \<Rightarrow> tdata" where
  "view_matrix t =
     (case t of
        Float1 xs \<Rightarrow> Float2 (chunk3 xs)
      | Float2 xs \<Rightarrow> Float2 (chunk3 (concat xs))
      | Float3 xs \<Rightarrow> Float2 (chunk3 (concat (concat xs)))
      | Long1 xs \<Rightarrow> Long2 (chunk3 xs)
      | Long2 xs \<Rightarrow> Long2 (chunk3 (concat xs))
      | Long3 xs \<Rightarrow> Long2 (chunk3 (concat (concat xs))))"

definition view_3_3 :: "tensor \<Rightarrow> error + tensor" where
  "view_3_3 t =
     (if numel (entries t) = 9
      then Inr (t\<lparr>entries := view_matrix (entries t)\<rparr>)
      else Inl RuntimeError)"

text \<open>
  The operations below need a dtype and a rank. A tensor of another dtype or rank is
  outside the schema of the graph data; the embedding raises \<open>RuntimeError\<close> at its first
  such use, and it does not broadcast: sizes have to agree as the schema has them.
\<close>

definition is_float :: "tensor \<Rightarrow> bool" where
  "is_float t =
     (case entries t of Float1 _ \<Rightarrow> True | Float2 _ \<Rightarrow> True | Float3 _ \<Rightarrow> True | _ \<Rightarrow> False)"

definition as_float2 :: "tensor \<Rightarrow> error + fl list list" where
  "as_float2 t = (case entries t of Float2 xs \<Rightarrow> Inr xs | _ \<Rightarrow> Inl RuntimeError)"

definition as_float3 :: "tensor \<Rightarrow> error + fl list list list" where
  "as_float3 t = (case entries t of Float3 xs \<Rightarrow> Inr xs | _ \<Rightarrow> Inl RuntimeError)"

definition as_long1 :: "tensor \<Rightarrow> error + int list" where
  "as_long1 t = (case entries t of Long1 xs \<Rightarrow> Inr xs | _ \<Rightarrow> Inl RuntimeError)"

definition as_long2 :: "tensor \<Rightarrow> error + int list list" where
  "as_long2 t = (case entries t of Long2 xs \<Rightarrow> Inr xs | _ \<Rightarrow> Inl RuntimeError)"

definition rows3 :: "'a list list \<Rightarrow> bool" where
  "rows3 xs = list_all (\<lambda>r. length r = 3) xs"

text \<open>\<^verbatim>\<open>t[i]\<close> for an integer \<open>i\<close>: row \<open>i\<close> of the first dimension.\<close>

definition select_row :: "'a list \<Rightarrow> int \<Rightarrow> error + 'a" where
  "select_row xs i =
     (case norm_index (length xs) i of None \<Rightarrow> Inl IndexError | Some k \<Rightarrow> Inr (xs ! k))"

definition zero33 :: "fl list list" where
  "zero33 = replicate 3 (replicate 3 (Some 0))"

definition transpose33 :: "fl list list \<Rightarrow> fl list list" where
  "transpose33 m = map (\<lambda>j. map (\<lambda>i. m ! i ! j) [0..<3]) [0..<3]"

definition vadd :: "fl list \<Rightarrow> fl list \<Rightarrow> fl list" where
  "vadd u v = map2 fl_add u v"

definition vsub :: "fl list \<Rightarrow> fl list \<Rightarrow> fl list" where
  "vsub u v = map2 fl_sub u v"

definition madd :: "fl list list \<Rightarrow> fl list list \<Rightarrow> fl list list" where
  "madd a b = map2 vadd a b"

definition msub :: "fl list list \<Rightarrow> fl list list \<Rightarrow> fl list list" where
  "msub a b = map2 vsub a b"

definition mscale :: "real \<Rightarrow> fl list list \<Rightarrow> fl list list" where
  "mscale c m = map (map (fl_mul (Some c))) m"

text \<open>A row vector of three entries times a matrix of three rows of three.\<close>

definition vecmat :: "fl list \<Rightarrow> fl list list \<Rightarrow> fl list" where
  "vecmat v m = map (\<lambda>j. fl_sum (map (\<lambda>i. fl_mul (v ! i) (m ! i ! j)) [0..<3])) [0..<3]"

definition matmul :: "fl list list \<Rightarrow> fl list list \<Rightarrow> fl list list" where
  "matmul a m = map (\<lambda>row. vecmat row m) a"

text \<open>\<^verbatim>\<open>0.5 * (strain + strain.transpose(-1, -2))\<close> for one matrix of the strain.\<close>

definition sym_strain :: "fl list list \<Rightarrow> fl list list" where
  "sym_strain s = mscale (1 / 2) (madd s (transpose33 s))"

text \<open>\<^verbatim>\<open>torch.linalg.norm(v, dim=-1)\<close> for one row.\<close>

definition norm_row :: "fl list \<Rightarrow> fl" where
  "norm_row v = fl_sqrt (fl_sum (map (\<lambda>x. fl_mul x x) v))"

section \<open>EdgePreprocess\<close>

record EdgePreprocess =
  is_stress :: bool
  is_batch_data :: bool

definition EdgePreprocess_init :: "bool \<Rightarrow> EdgePreprocess" where
  "EdgePreprocess_init stress = \<lparr>is_stress = stress, is_batch_data = True\<rparr>"

definition strain_key :: string where
  "strain_key = ''_strain''"

type_synonym 'a raised = "(error \<times> AtomGraphDataType) + 'a"

text \<open>
  Lines 42 to 57, the stress branch on batched data. The strain is a leaf variable of the
  gradient graph: the source creates it with all entries zero, and what it computes from it
  is a function of its entries. \<open>sv g\<close> is the matrix the strain variable holds for graph
  \<open>g\<close>; the source's call is the one at \<open>\<lambda>g. zero33\<close>.
\<close>

definition stress_batch ::
  "(nat \<Rightarrow> fl list list) \<Rightarrow> AtomGraphDataType \<Rightarrow> tensor \<Rightarrow> tensor \<Rightarrow> tensor
     \<Rightarrow> (AtomGraphDataType \<times> tensor \<times> tensor) raised" where
  "stress_batch sv data pos cell batch =
     bindE (at_state data (as_long1 batch)) (\<lambda>b.
     if b = [] then Inl (RuntimeError, data)
     else
       let num_batch = Max (set b) + 1 in
       if num_batch < 0 \<or> \<not> is_float pos then Inl (RuntimeError, data)
       else
         let strain = map sv [0..<nat num_batch];
             data1 = data(strain_key \<mapsto> \<lparr>entries = Float3 strain, requires_grad = True\<rparr>);
             sym = map sym_strain strain
         in
         bindE (at_state data1 (index_select sym b)) (\<lambda>sym_b.
         bindE (at_state data1 (as_float2 pos)) (\<lambda>p.
         if length p \<noteq> length sym_b \<or> \<not> rows3 p then Inl (RuntimeError, data1)
         else
           let pos1 = madd p (map2 vecmat p sym_b) in
           bindE (at_state data1 (as_float3 cell)) (\<lambda>c.
           if length c \<noteq> length sym then Inl (RuntimeError, data1)
           else
             let cell1 = map2 madd c (map2 matmul c sym) in
             Inr (data1,
                  \<lparr>entries = Float2 pos1, requires_grad = True\<rparr>,
                  \<lparr>entries = Float3 cell1, requires_grad = True\<rparr>)))))"

text \<open>Lines 59 to 69, the stress branch on a single graph; the strain is \<open>sv 0\<close>.\<close>

definition stress_single ::
  "(nat \<Rightarrow> fl list list) \<Rightarrow> AtomGraphDataType \<Rightarrow> tensor \<Rightarrow> tensor
     \<Rightarrow> (AtomGraphDataType \<times> tensor \<times> tensor) raised" where
  "stress_single sv data pos cell =
     (if \<not> is_float pos then Inl (RuntimeError, data)
      else
        let strain = sv 0;
            data1 = data(strain_key \<mapsto> \<lparr>entries = Float2 strain, requires_grad = True\<rparr>);
            sym = sym_strain strain
        in
        bindE (at_state data1 (as_float2 pos)) (\<lambda>p.
        if \<not> rows3 p then Inl (RuntimeError, data1)
        else
          let pos1 = madd p (matmul p sym) in
          bindE (at_state data1 (as_float2 cell)) (\<lambda>c.
          let cell1 = madd c (matmul c sym) in
          Inr (data1,
               \<lparr>entries = Float2 pos1, requires_grad = True\<rparr>,
               \<lparr>entries = Float2 cell1, requires_grad = True\<rparr>))))"

text \<open>Lines 71 to 83: the edge vectors from the positions, the cell and the cell shifts.\<close>

definition edge_vectors ::
  "EdgePreprocess \<Rightarrow> AtomGraphDataType \<Rightarrow> tensor \<Rightarrow> tensor \<Rightarrow> tensor \<Rightarrow> tensor
     \<Rightarrow> error + tensor" where
  "edge_vectors self data pos cell cell_shift batch =
     bindE (getitem data KEY_EDGE_IDX) (\<lambda>ei0.
     bindE (as_long2 ei0) (\<lambda>e0.
     bindE (select_row e0 0) (\<lambda>idx_src.
     bindE (getitem data KEY_EDGE_IDX) (\<lambda>ei1.
     bindE (as_long2 ei1) (\<lambda>e1.
     bindE (select_row e1 1) (\<lambda>idx_dst.
     bindE (as_float2 pos) (\<lambda>p.
     bindE (index_select p idx_dst) (\<lambda>p_dst.
     bindE (index_select p idx_src) (\<lambda>p_src.
     let edge_vec = msub p_dst p_src in
     bindE
       (if is_batch_data self then
          bindE (as_long1 batch) (\<lambda>b.
          bindE (index_select b idx_src) (\<lambda>b_src.
          bindE (as_float3 cell) (\<lambda>c.
          bindE (index_select c b_src) (\<lambda>c_src.
          bindE (as_float2 cell_shift) (\<lambda>cs.
          if length cs \<noteq> length c_src \<or> \<not> rows3 cs then Inl RuntimeError
          else Inr (map2 vecmat cs c_src))))))
        else
          bindE (as_float2 cell) (\<lambda>c.
          bindE (as_float2 cell_shift) (\<lambda>cs.
          if \<not> rows3 cs then Inl RuntimeError
          else Inr (matmul cs c))))
       (\<lambda>shift.
     if length edge_vec \<noteq> length shift \<or> \<not> rows3 edge_vec then Inl RuntimeError
     else
       Inr \<lparr>entries = Float2 (madd edge_vec shift),
            requires_grad =
              (requires_grad pos \<or> requires_grad cell_shift \<or> requires_grad cell)\<rparr>
     ))))))))))"

text \<open>\<^verbatim>\<open>torch.linalg.norm(t, dim=-1)\<close>: the norm of each row of the last dimension.\<close>

definition linalg_norm :: "tensor \<Rightarrow> error + tensor" where
  "linalg_norm t =
     (case entries t of
        Float2 xs \<Rightarrow> Inr (t\<lparr>entries := Float1 (map norm_row xs)\<rparr>)
      | Float3 xs \<Rightarrow> Inr (t\<lparr>entries := Float2 (map (map norm_row) xs)\<rparr>)
      | _ \<Rightarrow> Inl RuntimeError)"

text \<open>
  \<^verbatim>\<open>EdgePreprocess.forward\<close>, with the strain variable holding \<open>sv\<close>. It returns the
  dictionary it was given, with the keys it wrote.
\<close>

definition EdgePreprocess_forward_at ::
  "(nat \<Rightarrow> fl list list) \<Rightarrow> EdgePreprocess \<Rightarrow> AtomGraphDataType
     \<Rightarrow> AtomGraphDataType raised" where
  "EdgePreprocess_forward_at sv self data =
     bindE (at_state data (getitem data KEY_CELL)) (\<lambda>cell0.
     bindE (at_state data
              (if is_batch_data self then view_m1_3_3 cell0 else view_3_3 cell0)) (\<lambda>cell.
     bindE (at_state data (getitem data KEY_CELL_SHIFT)) (\<lambda>cell_shift.
     bindE (at_state data (getitem data KEY_POS)) (\<lambda>pos.
     bindE (at_state data (getitem data KEY_BATCH)) (\<lambda>batch.
     bindE
       (if is_stress self then
          (if is_batch_data self then stress_batch sv data pos cell batch
           else stress_single sv data pos cell)
        else Inr (data, pos, cell))
       (\<lambda>(data1, pos1, cell1).
     bindE (at_state data1 (edge_vectors self data1 pos1 cell1 cell_shift batch))
       (\<lambda>edge_vec.
     let data2 = data1(KEY_EDGE_VEC \<mapsto> edge_vec) in
     bindE (at_state data2 (linalg_norm edge_vec)) (\<lambda>edge_length.
     Inr (data2(KEY_EDGE_LENGTH \<mapsto> edge_length))
     ))))))))"

text \<open>\<^verbatim>\<open>EdgePreprocess.forward\<close> as the source runs it: the strain is created all zero.\<close>

definition EdgePreprocess_forward ::
  "EdgePreprocess \<Rightarrow> AtomGraphDataType \<Rightarrow> AtomGraphDataType raised" where
  "EdgePreprocess_forward self data = EdgePreprocess_forward_at (\<lambda>g. zero33) self data"

section \<open>BesselBasis\<close>

record BesselBasis =
  num_basis :: int
  prefactor :: real
  coeffs :: "real list"
  trainable :: bool

text \<open>
  \<^verbatim>\<open>BesselBasis.__init__\<close>. \<^verbatim>\<open>2.0 / cutoff_length\<close> is a division of Python floats, which
  raises at zero. \<open>trainable\<close> records that the coefficients were wrapped in
  \<^verbatim>\<open>nn.Parameter\<close>.
\<close>

definition BesselBasis_init :: "int \<Rightarrow> real \<Rightarrow> bool \<Rightarrow> error + BesselBasis" where
  "BesselBasis_init nb cutoff_length trainable_coeff =
     (if cutoff_length = 0 then Inl ZeroDivisionError
      else Inr \<lparr>num_basis = nb,
                prefactor = 2 / cutoff_length,
                coeffs = map (\<lambda>n. of_int n * pi / cutoff_length) [1..nb],
                trainable = trainable_coeff\<rparr>)"

text \<open>\<^verbatim>\<open>self.prefactor * torch.sin(self.coeffs * ur) / ur\<close> for one entry \<open>r\<close>.\<close>

definition bessel_row :: "BesselBasis \<Rightarrow> fl \<Rightarrow> fl list" where
  "bessel_row self r =
     map (\<lambda>c. fl_div (fl_mul (Some (prefactor self)) (fl_sin (fl_mul (Some c) r))) r)
       (coeffs self)"

definition BesselBasis_forward :: "BesselBasis \<Rightarrow> tensor \<Rightarrow> error + tensor" where
  "BesselBasis_forward self r =
     (case entries r of
        Float1 xs \<Rightarrow>
          Inr \<lparr>entries = Float2 (map (bessel_row self) xs),
               requires_grad = (requires_grad r \<or> trainable self)\<rparr>
      | _ \<Rightarrow> Inl RuntimeError)"

section \<open>PolynomialCutoff\<close>

record PolynomialCutoff =
  cutoff_length :: real
  p :: int
  coeff_p0 :: real
  coeff_p1 :: real
  coeff_p2 :: real

definition PolynomialCutoff_init :: "int \<Rightarrow> real \<Rightarrow> PolynomialCutoff" where
  "PolynomialCutoff_init p0 rc =
     \<lparr>cutoff_length = rc,
      p = p0,
      coeff_p0 = (of_int p0 + 1) * (of_int p0 + 2) / 2,
      coeff_p1 = of_int p0 * (of_int p0 + 2),
      coeff_p2 = of_int p0 * (of_int p0 + 1) / 2\<rparr>"

text \<open>\<^verbatim>\<open>PolynomialCutoff.forward\<close> for one entry \<open>r\<close>.\<close>

definition polynomial_cutoff :: "PolynomialCutoff \<Rightarrow> fl \<Rightarrow> fl" where
  "polynomial_cutoff self r0 =
     (let r = fl_div r0 (Some (cutoff_length self)) in
      fl_sub
        (fl_add
           (fl_sub (Some 1) (fl_mul (Some (coeff_p0 self)) (fl_pow r (p self))))
           (fl_mul (Some (coeff_p1 self)) (fl_pow r (p self + 1))))
        (fl_mul (Some (coeff_p2 self)) (fl_pow r (p self + 2))))"

definition PolynomialCutoff_forward :: "PolynomialCutoff \<Rightarrow> tensor \<Rightarrow> error + tensor" where
  "PolynomialCutoff_forward self r =
     (case entries r of
        Float1 xs \<Rightarrow> Inr (r\<lparr>entries := Float1 (map (polynomial_cutoff self) xs)\<rparr>)
      | _ \<Rightarrow> Inl RuntimeError)"

section \<open>XPLORCutoff\<close>

record XPLORCutoff =
  r_on :: real
  r_cut :: real

definition XPLORCutoff_init :: "real \<Rightarrow> real \<Rightarrow> XPLORCutoff" where
  "XPLORCutoff_init cutoff_on rc = \<lparr>r_on = cutoff_on, r_cut = rc\<rparr>"

text \<open>
  \<^verbatim>\<open>XPLORCutoff.forward\<close> for one entry \<open>r\<close>. \<^verbatim>\<open>torch.where\<close> selects: where \<^verbatim>\<open>r < r_on\<close>
  the entry is 1.0 whatever the other branch computed.
\<close>

definition xplor_cutoff :: "XPLORCutoff \<Rightarrow> fl \<Rightarrow> fl" where
  "xplor_cutoff self r =
     (let r_sq = fl_mul r r;
          r_on_sq = r_on self * r_on self;
          r_cut_sq = r_cut self * r_cut self
      in
      case r of
        None \<Rightarrow> None
      | Some x \<Rightarrow>
          if x < r_on self then Some 1
          else
            fl_div
              (fl_mul
                 (fl_pow (fl_sub (Some r_cut_sq) r_sq) 2)
                 (fl_sub
                    (fl_add (Some r_cut_sq) (fl_mul (Some 2) r_sq))
                    (Some (3 * r_on_sq))))
              (Some ((r_cut_sq - r_on_sq) ^ 3)))"

definition XPLORCutoff_forward :: "XPLORCutoff \<Rightarrow> tensor \<Rightarrow> error + tensor" where
  "XPLORCutoff_forward self r =
     (case entries r of
        Float1 xs \<Rightarrow> Inr (r\<lparr>entries := Float1 (map (xplor_cutoff self) xs)\<rparr>)
      | _ \<Rightarrow> Inl RuntimeError)"

section \<open>EdgeEmbedding\<close>

text \<open>
  The three modules are injected; each is its \<^verbatim>\<open>forward\<close>. \<^verbatim>\<open>SphericalEncoding\<close> wraps
  the spherical harmonics of the library e3nn, which is not part of the repository: it is
  one of the functions \<open>spherical\<close> can be.
\<close>

record EdgeEmbedding =
  basis_function :: "tensor \<Rightarrow> error + tensor"
  cutoff_function :: "tensor \<Rightarrow> error + tensor"
  spherical :: "tensor \<Rightarrow> error + tensor"

text \<open>
  \<^verbatim>\<open>b * c.unsqueeze(-1)\<close> for a basis tensor of shape (E, num_basis) and a cutoff tensor of
  shape (E): each row of \<open>b\<close> scaled by its entry of \<open>c\<close>.
\<close>

definition mul_unsqueeze :: "tensor \<Rightarrow> tensor \<Rightarrow> error + tensor" where
  "mul_unsqueeze b c =
     bindE (as_float2 b) (\<lambda>rows.
     (case entries c of
        Float1 ws \<Rightarrow>
          if length rows \<noteq> length ws then Inl RuntimeError
          else
            Inr \<lparr>entries = Float2 (map2 (\<lambda>row w. map (\<lambda>x. fl_mul x w) row) rows ws),
                 requires_grad = (requires_grad b \<or> requires_grad c)\<rparr>
      | _ \<Rightarrow> Inl RuntimeError))"

definition EdgeEmbedding_forward ::
  "EdgeEmbedding \<Rightarrow> AtomGraphDataType \<Rightarrow> AtomGraphDataType raised" where
  "EdgeEmbedding_forward self data =
     bindE (at_state data (getitem data KEY_EDGE_VEC)) (\<lambda>rvec.
     bindE (at_state data (getitem data KEY_EDGE_VEC)) (\<lambda>rvec1.
     bindE (at_state data (linalg_norm rvec1)) (\<lambda>r.
     let data1 = data(KEY_EDGE_LENGTH \<mapsto> r) in
     bindE (at_state data1 (basis_function self r)) (\<lambda>b.
     bindE (at_state data1 (cutoff_function self r)) (\<lambda>c.
     bindE (at_state data1 (mul_unsqueeze b c)) (\<lambda>emb.
     let data2 = data1(KEY_EDGE_EMBEDDING \<mapsto> emb) in
     bindE (at_state data2 (spherical self rvec)) (\<lambda>attr.
     Inr (data2(KEY_EDGE_ATTR \<mapsto> attr)))))))))"

section \<open>The polynomial envelope of the specification\<close>

text \<open>
  The polynomial cutoff as the specification writes it, for a natural exponent \<open>n\<close>, with
  its first and second derivative. They are what the properties of
  \<^verbatim>\<open>PolynomialCutoff.forward\<close> are stated against.
\<close>

definition polynomial_envelope :: "nat \<Rightarrow> real \<Rightarrow> real \<Rightarrow> real" where
  "polynomial_envelope n rc r =
     1 - ((of_nat n + 1) * (of_nat n + 2) / 2) * (r / rc) ^ n
       + (of_nat n * (of_nat n + 2)) * (r / rc) ^ (n + 1)
       - (of_nat n * (of_nat n + 1) / 2) * (r / rc) ^ (n + 2)"

definition polynomial_envelope' :: "nat \<Rightarrow> real \<Rightarrow> real \<Rightarrow> real" where
  "polynomial_envelope' n rc r =
     0 - ((of_nat n + 1) * (of_nat n + 2) / 2) * (of_nat n * (r / rc) ^ (n - 1) / rc)
       + (of_nat n * (of_nat n + 2)) * ((of_nat n + 1) * (r / rc) ^ n / rc)
       - (of_nat n * (of_nat n + 1) / 2) * ((of_nat n + 2) * (r / rc) ^ (n + 1) / rc)"

definition polynomial_envelope'' :: "nat \<Rightarrow> real \<Rightarrow> real \<Rightarrow> real" where
  "polynomial_envelope'' n rc r =
     0 - ((of_nat n + 1) * (of_nat n + 2) / 2)
           * (of_nat n * (of_nat (n - 1) * (r / rc) ^ (n - 1 - 1) / rc) / rc)
       + (of_nat n * (of_nat n + 2)) * ((of_nat n + 1) * (of_nat n * (r / rc) ^ (n - 1) / rc) / rc)
       - (of_nat n * (of_nat n + 1) / 2)
           * ((of_nat n + 2) * ((of_nat n + 1) * (r / rc) ^ n / rc) / rc)"

section \<open>Notions the properties are stated with\<close>

text \<open>The dictionary a call leaves behind, whether it returned or raised.\<close>

definition dict_after :: "AtomGraphDataType raised \<Rightarrow> AtomGraphDataType" where
  "dict_after r = (case r of Inl (e, d) \<Rightarrow> d | Inr d \<Rightarrow> d)"

definition writes_only :: "string set \<Rightarrow> AtomGraphDataType \<Rightarrow> AtomGraphDataType \<Rightarrow> bool" where
  "writes_only ks d d' = (\<forall>k. k \<notin> ks \<longrightarrow> d' k = d k)"

text \<open>
  The cell matrices by graph: the blocks of the reshaped cell on batched data, the one matrix
  of a single graph. The graph that owns an edge is the graph of its source atom on batched
  data, and the only graph otherwise. Indices \<open>in_range\<close> are those from 0 below \<open>n\<close>.
\<close>

definition graph_cells :: "EdgePreprocess \<Rightarrow> tensor \<Rightarrow> error + fl list list list" where
  "graph_cells self cellT =
     bindE (if is_batch_data self then view_m1_3_3 cellT else view_3_3 cellT) (\<lambda>c.
     case entries c of
       Float3 cs \<Rightarrow> Inr cs
     | Float2 m \<Rightarrow> Inr [m]
     | _ \<Rightarrow> Inl RuntimeError)"

definition owning_graph :: "EdgePreprocess \<Rightarrow> int list \<Rightarrow> int \<Rightarrow> nat" where
  "owning_graph self batch s = (if is_batch_data self then nat (batch ! nat s) else 0)"

definition in_range :: "int list \<Rightarrow> nat \<Rightarrow> bool" where
  "in_range idx n = list_all (\<lambda>i. 0 \<le> i \<and> i < int n) idx"

text \<open>
  The edge vectors by rows: the position of the destination minus the position of the
  source, plus the cell shift times the cell of the owning graph.
\<close>

definition edge_rows ::
  "EdgePreprocess \<Rightarrow> fl list list \<Rightarrow> fl list list list \<Rightarrow> fl list list \<Rightarrow> int list
     \<Rightarrow> int list \<Rightarrow> int list \<Rightarrow> fl list list" where
  "edge_rows self pos cells cs batch src dst =
     madd (msub (map (\<lambda>i. pos ! nat i) dst) (map (\<lambda>i. pos ! nat i) src))
       (map2 vecmat cs (map (\<lambda>s. cells ! owning_graph self batch s) src))"

section \<open>A sample graph\<close>

text \<open>
  Two atoms at distance 1.5 in one graph with a cubic cell of side 4, one edge from atom 0 to
  atom 1 and one from atom 1 to the periodic image of atom 0 one cell further.
\<close>

definition sample_pos :: tensor where
  "sample_pos = \<lparr>entries = Float2 [[Some 0, Some 0, Some 0], [Some (3 / 2), Some 0, Some 0]],
                  requires_grad = True\<rparr>"

definition sample_cell :: tensor where
  "sample_cell = \<lparr>entries = Float2 [[Some 4, Some 0, Some 0], [Some 0, Some 4, Some 0],
                                     [Some 0, Some 0, Some 4]],
                   requires_grad = False\<rparr>"

definition sample_shift :: tensor where
  "sample_shift = \<lparr>entries = Float2 [[Some 0, Some 0, Some 0], [Some 1, Some 0, Some 0]],
                    requires_grad = False\<rparr>"

definition sample_edges :: tensor where
  "sample_edges = \<lparr>entries = Long2 [[0, 1], [1, 0]], requires_grad = False\<rparr>"

definition sample_batch :: tensor where
  "sample_batch = \<lparr>entries = Long1 [0, 0], requires_grad = False\<rparr>"

definition sample_data :: AtomGraphDataType where
  "sample_data =
     [KEY_POS \<mapsto> sample_pos, KEY_CELL \<mapsto> sample_cell, KEY_CELL_SHIFT \<mapsto> sample_shift,
      KEY_EDGE_IDX \<mapsto> sample_edges, KEY_BATCH \<mapsto> sample_batch]"

definition sample_edge_vec :: tensor where
  "sample_edge_vec =
     \<lparr>entries = Float2 [[Some (3 / 2), Some 0, Some 0], [Some (5 / 2), Some 0, Some 0]],
      requires_grad = True\<rparr>"

definition sample_edge_length :: tensor where
  "sample_edge_length = \<lparr>entries = Float1 [Some (3 / 2), Some (5 / 2)], requires_grad = True\<rparr>"

text \<open>
  An assembler of the repository's radial basis and polynomial cutoff; the angular encoding
  is the library's, and the identity stands in for it.
\<close>

definition sample_embedding :: EdgeEmbedding where
  "sample_embedding =
     \<lparr>basis_function =
        BesselBasis_forward
          \<lparr>num_basis = 2, prefactor = 1, coeffs = [pi / 2, 2 * pi / 2], trainable = True\<rparr>,
      cutoff_function = PolynomialCutoff_forward (PolynomialCutoff_init 6 2),
      spherical = (\<lambda>t. Inr t)\<rparr>"

section \<open>The strained geometry of the specification\<close>

text \<open>
  A matrix of three rows of three entries; rows whose entries are all real numbers; the
  strain \<open>\<epsilon> I\<close>.
\<close>

definition shape33 :: "'a list list \<Rightarrow> bool" where
  "shape33 m = (length m = 3 \<and> rows3 m)"

definition finite_rows :: "fl list list \<Rightarrow> bool" where
  "finite_rows m = list_all (list_all (\<lambda>x. x \<noteq> None)) m"

definition eps_I :: "real \<Rightarrow> fl list list" where
  "eps_I eps = [[Some eps, Some 0, Some 0], [Some 0, Some eps, Some 0], [Some 0, Some 0, Some eps]]"

text \<open>
  A row vector \<open>v\<close> under the strain \<open>S\<close>, in the specification's words: \<open>v + v \<cdot> \<onehalf>(S + S\<^sup>T)\<close>.
  The positions are strained by the strain of the graph that owns the atom, the cell of
  graph \<open>g\<close> by the strain of \<open>g\<close>.
\<close>

definition strained :: "fl list list \<Rightarrow> fl list \<Rightarrow> fl list" where
  "strained s v =
     map (\<lambda>j. fl_add (v ! j)
            (fl_sum (map (\<lambda>i. fl_mul (v ! i)
               (fl_mul (Some (1 / 2)) (fl_add (s ! i ! j) (s ! j ! i)))) [0..<3])))
       [0..<3]"

definition strained_pos ::
  "EdgePreprocess \<Rightarrow> (nat \<Rightarrow> fl list list) \<Rightarrow> int list \<Rightarrow> fl list list \<Rightarrow> fl list list" where
  "strained_pos self sv batch pos =
     map (\<lambda>k. strained (sv (owning_graph self batch (int k))) (pos ! k)) [0..<length pos]"

definition strained_cells ::
  "(nat \<Rightarrow> fl list list) \<Rightarrow> fl list list list \<Rightarrow> fl list list list" where
  "strained_cells sv cells = map (\<lambda>g. map (strained (sv g)) (cells ! g)) [0..<length cells]"

text \<open>
  The dictionary after a call in stress mode: the strain variable, the edge vectors and the
  edge lengths written, all three requiring a gradient.
\<close>

definition stress_result :: "AtomGraphDataType \<Rightarrow> tdata \<Rightarrow> fl list list \<Rightarrow> AtomGraphDataType" where
  "stress_result data strain ev =
     data(strain_key \<mapsto> \<lparr>entries = strain, requires_grad = True\<rparr>,
          KEY_EDGE_VEC \<mapsto> \<lparr>entries = Float2 ev, requires_grad = True\<rparr>,
          KEY_EDGE_LENGTH \<mapsto> \<lparr>entries = Float1 (map norm_row ev), requires_grad = True\<rparr>)"

section \<open>Properties of the cutoff functions\<close>

lemma polynomial_cutoff_eq:
  assumes "1 \<le> p0" and "rc \<noteq> 0"
  shows "polynomial_cutoff (PolynomialCutoff_init p0 rc) (Some r) =
         Some (polynomial_envelope (nat p0) rc r)"
proof -
  define n where "n = nat p0"
  have n: "p0 = int n"
    using assms(1) by (simp add: n_def)
  have a: "power_int (r / rc) (int n) = (r / rc) ^ n"
    "power_int (r / rc) (int n + 1) = (r / rc) ^ (n + 1)"
    "power_int (r / rc) (int n + 2) = (r / rc) ^ (n + 2)"
    using power_int_of_nat [of "r / rc" "n + 1"] power_int_of_nat [of "r / rc" "n + 2"]
    by (simp_all add: add.commute)
  have b: "\<not> int n + 1 < 0" "\<not> int n + 2 < 0"
    by simp_all
  show ?thesis
    unfolding polynomial_cutoff_def PolynomialCutoff_init_def polynomial_envelope_def Let_def
      n_def [symmetric]
    using assms(2) by (simp add: n a b)
qed

lemma power_ratio_deriv:
  "rc \<noteq> 0 \<Longrightarrow> ((\<lambda>r. (r / rc) ^ k) has_real_derivative of_nat k * (r / rc) ^ (k - 1) / rc) (at r)"
  by (auto intro!: derivative_eq_intros)

lemma power_ratio_deriv1:
  assumes "rc \<noteq> 0"
  shows "((\<lambda>r. (r / rc) ^ (n + 1)) has_real_derivative (of_nat n + 1) * (r / rc) ^ n / rc) (at r)"
  using power_ratio_deriv [OF assms, of "n + 1" r]
  by (simp only: of_nat_add of_nat_1 add_diff_cancel_right')

lemma power_ratio_deriv2:
  assumes "rc \<noteq> 0"
  shows "((\<lambda>r. (r / rc) ^ (n + 2)) has_real_derivative
            (of_nat n + 2) * (r / rc) ^ (n + 1) / rc) (at r)"
proof -
  have "n + 2 - 1 = n + 1"
    by simp
  then show ?thesis
    using power_ratio_deriv [OF assms, of "n + 2" r]
    by (simp only: of_nat_add of_nat_numeral)
qed

lemma envelope_deriv:
  assumes "rc \<noteq> 0"
  shows "(polynomial_envelope n rc has_real_derivative polynomial_envelope' n rc r) (at r)"
  unfolding polynomial_envelope_def [abs_def] polynomial_envelope'_def
  by (intro DERIV_diff DERIV_add DERIV_cmult DERIV_const
        power_ratio_deriv [OF assms] power_ratio_deriv1 [OF assms] power_ratio_deriv2 [OF assms])

lemma envelope_deriv2:
  assumes "rc \<noteq> 0"
  shows "(polynomial_envelope' n rc has_real_derivative polynomial_envelope'' n rc r) (at r)"
  unfolding polynomial_envelope'_def [abs_def] polynomial_envelope''_def
  by (intro DERIV_diff DERIV_add DERIV_cmult DERIV_const DERIV_cdivide
        power_ratio_deriv [OF assms] power_ratio_deriv1 [OF assms])

lemma envelope'_at_cutoff:
  assumes "rc \<noteq> 0"
  shows "polynomial_envelope' n rc rc = 0"
  using assms by (simp add: polynomial_envelope'_def field_simps)

lemma envelope''_at_cutoff:
  assumes "rc \<noteq> 0" and "1 \<le> n"
  shows "polynomial_envelope'' n rc rc = 0"
proof -
  have "real (n - 1) = real n - 1"
    using assms(2) by (simp add: of_nat_diff)
  then show ?thesis
    using assms(1) by (simp add: polynomial_envelope''_def field_simps)
qed

text \<open>
  Claim C5. For every integer \<open>p \<ge> 1\<close> and cutoff length \<open>rc > 0\<close>, the polynomial cutoff
  computes \<open>f(r) = 1 - C0 (r/rc)^p + C1 (r/rc)^(p+1) - C2 (r/rc)^(p+2)\<close> with
  \<open>C0 = (p+1)(p+2)/2\<close>, \<open>C1 = p(p+2)\<close>, \<open>C2 = p(p+1)/2\<close>, on every real entry of its input;
  \<open>f(0) = 1\<close>, \<open>f(rc) = 0\<close>, and the first and the second derivative of \<open>f\<close> are zero at \<open>rc\<close>.
\<close>

theorem PolynomialCutoff_envelope:
  assumes "1 \<le> p0" and "0 < rc"
  shows "(\<forall>r. polynomial_cutoff (PolynomialCutoff_init p0 rc) (Some r) =
              Some (polynomial_envelope (nat p0) rc r))
       \<and> PolynomialCutoff_forward (PolynomialCutoff_init p0 rc)
           \<lparr>entries = Float1 (map Some rs), requires_grad = g\<rparr> =
         Inr \<lparr>entries = Float1 (map (\<lambda>r. Some (polynomial_envelope (nat p0) rc r)) rs),
              requires_grad = g\<rparr>
       \<and> polynomial_envelope (nat p0) rc 0 = 1
       \<and> polynomial_envelope (nat p0) rc rc = 0
       \<and> (polynomial_envelope (nat p0) rc has_real_derivative 0) (at rc)
       \<and> (\<exists>f'. (\<forall>r. (polynomial_envelope (nat p0) rc has_real_derivative f' r) (at r))
              \<and> (f' has_real_derivative 0) (at rc))"
proof -
  have rc: "rc \<noteq> 0"
    using assms(2) by simp
  have n: "1 \<le> nat p0"
    using assms(1) by simp
  have eq: "polynomial_cutoff (PolynomialCutoff_init p0 rc) (Some r) =
      Some (polynomial_envelope (nat p0) rc r)" for r
    by (rule polynomial_cutoff_eq [OF assms(1) rc])
  have fwd: "PolynomialCutoff_forward (PolynomialCutoff_init p0 rc)
           \<lparr>entries = Float1 (map Some rs), requires_grad = g\<rparr> =
         Inr \<lparr>entries = Float1 (map (\<lambda>r. Some (polynomial_envelope (nat p0) rc r)) rs),
              requires_grad = g\<rparr>"
    by (simp add: PolynomialCutoff_forward_def eq comp_def)
  have at0: "polynomial_envelope (nat p0) rc 0 = 1"
    using assms(1) by (simp add: polynomial_envelope_def)
  have at_rc: "polynomial_envelope (nat p0) rc rc = 0"
    using rc by (simp add: polynomial_envelope_def field_simps)
  have d1: "(polynomial_envelope (nat p0) rc has_real_derivative 0) (at rc)"
    using envelope_deriv [OF rc, of "nat p0" rc] envelope'_at_cutoff [OF rc, of "nat p0"]
    by simp
  have d2: "(polynomial_envelope' (nat p0) rc has_real_derivative 0) (at rc)"
    using envelope_deriv2 [OF rc, of "nat p0" rc] envelope''_at_cutoff [OF rc n]
    by simp
  have "\<exists>f'. (\<forall>r. (polynomial_envelope (nat p0) rc has_real_derivative f' r) (at r))
              \<and> (f' has_real_derivative 0) (at rc)"
    using envelope_deriv [OF rc, of "nat p0"] d2 by blast
  with eq fwd at0 at_rc d1 show ?thesis
    by blast
qed

theorem PolynomialCutoff_envelope_witness:
  "(1::int) \<le> 6 \<and> (0::real) < 2
   \<and> polynomial_cutoff (PolynomialCutoff_init 6 2) (Some (3 / 2)) = Some (21067 / 65536)
   \<and> polynomial_cutoff (PolynomialCutoff_init 6 2) (Some 0) = Some 1
   \<and> polynomial_cutoff (PolynomialCutoff_init 6 2) (Some 2) = Some 0"
  using PolynomialCutoff_envelope [of 6 2 "[]" False]
  by (simp add: polynomial_envelope_def power_divide)

lemma xplor_formula:
  assumes "0 < cutoff_on" and "cutoff_on < rc"
  shows "xplor_cutoff (XPLORCutoff_init cutoff_on rc) (Some r) =
     Some (if r < cutoff_on then 1
           else (rc\<^sup>2 - r\<^sup>2)\<^sup>2 * (rc\<^sup>2 + 2 * r\<^sup>2 - 3 * cutoff_on\<^sup>2) / (rc\<^sup>2 - cutoff_on\<^sup>2) ^ 3)"
proof -
  have "cutoff_on * cutoff_on < rc * rc"
    using assms by (simp add: mult_strict_mono)
  then have "rc * rc - cutoff_on * cutoff_on \<noteq> 0"
    by simp
  then show ?thesis
    by (simp add: xplor_cutoff_def XPLORCutoff_init_def power2_eq_square Let_def)
qed

text \<open>
  Claim C6. For \<open>0 < cutoff_on < cutoff_length\<close>, the switching cutoff returns 1 for every
  \<open>r < cutoff_on\<close>, the value
  \<open>(rc\<^sup>2 - r\<^sup>2)\<^sup>2 (rc\<^sup>2 + 2 r\<^sup>2 - 3 r_on\<^sup>2) / (rc\<^sup>2 - r_on\<^sup>2)\<^sup>3\<close> for every \<open>r \<ge> cutoff_on\<close> (so for
  every \<open>r\<close> from \<open>cutoff_on\<close> to \<open>cutoff_length\<close>), and 0 at \<open>r = cutoff_length\<close>.
\<close>

theorem XPLORCutoff_forward_values:
  assumes "0 < cutoff_on" and "cutoff_on < rc"
  shows "XPLORCutoff_forward (XPLORCutoff_init cutoff_on rc)
           \<lparr>entries = Float1 (map Some rs), requires_grad = g\<rparr> =
         Inr \<lparr>entries = Float1 (map (\<lambda>r. Some (if r < cutoff_on then 1
                 else (rc\<^sup>2 - r\<^sup>2)\<^sup>2 * (rc\<^sup>2 + 2 * r\<^sup>2 - 3 * cutoff_on\<^sup>2)
                      / (rc\<^sup>2 - cutoff_on\<^sup>2) ^ 3)) rs),
              requires_grad = g\<rparr>
       \<and> xplor_cutoff (XPLORCutoff_init cutoff_on rc) (Some rc) = Some 0"
proof -
  have "xplor_cutoff (XPLORCutoff_init cutoff_on rc) (Some rc) = Some 0"
    using assms by (simp add: xplor_formula [OF assms])
  moreover have "map (xplor_cutoff (XPLORCutoff_init cutoff_on rc)) (map Some rs) =
      map (\<lambda>r. Some (if r < cutoff_on then 1
                 else (rc\<^sup>2 - r\<^sup>2)\<^sup>2 * (rc\<^sup>2 + 2 * r\<^sup>2 - 3 * cutoff_on\<^sup>2)
                      / (rc\<^sup>2 - cutoff_on\<^sup>2) ^ 3)) rs"
    by (simp add: xplor_formula [OF assms] comp_def)
  ultimately show ?thesis
    by (simp add: XPLORCutoff_forward_def)
qed

theorem XPLORCutoff_forward_values_witness:
  "(0::real) < 1 \<and> (1::real) < 2 \<and>
   XPLORCutoff_forward (XPLORCutoff_init 1 2)
     \<lparr>entries = Float1 [Some (1/2), Some (3/2), Some 2], requires_grad = False\<rparr> =
   Inr \<lparr>entries = Float1 [Some 1, Some (539/864), Some 0], requires_grad = False\<rparr>"
  using XPLORCutoff_forward_values [of 1 2 "[1/2, 3/2, 2]" False]
  by (simp add: power2_eq_square power3_eq_cube)



section \<open>Properties of the radial basis and of construction\<close>




text \<open>
  Claim C8, as the code has it. Construction checks nothing: the radial basis is built for
  every \<open>num_basis\<close> (with no coefficients for \<open>num_basis \<le> 0\<close>) and raises only for
  \<open>cutoff_length = 0\<close>, the ZeroDivisionError of \<^verbatim>\<open>2.0 / cutoff_length\<close>; the switching cutoff
  stores every pair \<open>cutoff_on\<close>, \<open>cutoff_length\<close>, and its forward is still 1 below
  \<open>cutoff_on\<close>. The claim as stated, that \<open>num_basis \<le> 0\<close> and \<open>cutoff_on \<ge> cutoff_length\<close> raise
  a ConfigurationError, fails at \<open>num_basis = 0\<close> and at \<open>cutoff_on = 2\<close>, \<open>cutoff_length = 1\<close>.
\<close>

theorem construction_unchecked:
  "(BesselBasis_init nb rc tr = Inl e \<longleftrightarrow> rc = 0 \<and> e = ZeroDivisionError)
   \<and> (nb \<le> 0 \<and> rc \<noteq> 0 \<longrightarrow>
        (\<exists>bb. BesselBasis_init nb rc tr = Inr bb \<and> coeffs bb = [] \<and> bessel_row bb r = []))
   \<and> XPLORCutoff_init a b = \<lparr>r_on = a, r_cut = b\<rparr>
   \<and> (x < a \<longrightarrow> xplor_cutoff (XPLORCutoff_init a b) (Some x) = Some 1)"
  by (auto simp: BesselBasis_init_def XPLORCutoff_init_def xplor_cutoff_def bessel_row_def
      upto.simps)

theorem construction_unchecked_witness:
  "(BesselBasis_init 0 1 True \<noteq> Inl ZeroDivisionError)
   \<and> (\<exists>bb. BesselBasis_init 0 1 True = Inr bb \<and> coeffs bb = [] \<and> bessel_row bb (Some 1) = [])
   \<and> BesselBasis_init 4 0 True = Inl ZeroDivisionError
   \<and> xplor_cutoff (XPLORCutoff_init 2 1) (Some (3 / 2)) = Some 1"
  using construction_unchecked [of 0 1 True ZeroDivisionError "Some 1" 2 1 "3 / 2"]
    construction_unchecked [of 4 0 True ZeroDivisionError "Some 1" 2 1 "3 / 2"]
  by simp

text \<open>
  Where the statement with a ConfigurationError fails: a basis of no functions and of
  \<open>num_basis = -3\<close> is built, and so is a switching cutoff with \<open>cutoff_on = 2\<close> above
  \<open>cutoff_length = 1\<close>, whose forward returns 1 at \<open>r = 0.5\<close> and \<open>r = 1.5\<close>.
\<close>

theorem construction_unchecked_counterexample:
  "BesselBasis_init 0 1 True =
     Inr \<lparr>num_basis = 0, prefactor = 2, coeffs = [], trainable = True\<rparr>
   \<and> BesselBasis_init (- 3) 1 True =
     Inr \<lparr>num_basis = - 3, prefactor = 2, coeffs = [], trainable = True\<rparr>
   \<and> XPLORCutoff_init 2 1 = \<lparr>r_on = 2, r_cut = 1\<rparr>
   \<and> XPLORCutoff_forward (XPLORCutoff_init 2 1)
       \<lparr>entries = Float1 [Some (1 / 2), Some (3 / 2)], requires_grad = False\<rparr> =
     Inr \<lparr>entries = Float1 [Some 1, Some 1], requires_grad = False\<rparr>"
  by (simp add: BesselBasis_init_def XPLORCutoff_init_def XPLORCutoff_forward_def
      xplor_cutoff_def upto.simps)

section \<open>Properties of the geometry preprocessing\<close>

text \<open>The keys are pairwise different.\<close>

lemmas KEY_defs = KEY_POS_def KEY_CELL_def KEY_CELL_SHIFT_def KEY_EDGE_IDX_def
  KEY_BATCH_def KEY_EDGE_VEC_def KEY_EDGE_LENGTH_def KEY_EDGE_EMBEDDING_def
  KEY_EDGE_ATTR_def strain_key_def

lemma bindE_Inr_iff: "bindE r f = Inr y \<longleftrightarrow> (\<exists>x. r = Inr x \<and> f x = Inr y)"
  by (cases r) (simp_all add: bindE_def)

lemma bindE_Inl_iff: "bindE r f = Inl e \<longleftrightarrow> r = Inl e \<or> (\<exists>x. r = Inr x \<and> f x = Inl e)"
  by (cases r) (simp_all add: bindE_def)

lemma at_state_Inr_iff: "at_state s r = Inr x \<longleftrightarrow> r = Inr x"
  by (cases r) (simp_all add: at_state_def)

lemma at_state_Inl_iff: "at_state s r = Inl z \<longleftrightarrow> (\<exists>e. r = Inl e \<and> z = (e, s))"
  by (cases r) (auto simp: at_state_def)

lemma writes_only_refl: "writes_only ks d d"
  by (simp add: writes_only_def)

lemma writes_only_upd: "writes_only ks d d' \<Longrightarrow> k \<in> ks \<Longrightarrow> writes_only ks d (d'(k \<mapsto> t))"
  by (simp add: writes_only_def)

lemma stress_batch_writes:
  "stress_batch sv data pos cell batch = Inl (e, d) \<Longrightarrow> writes_only {strain_key} data d"
  "stress_batch sv data pos cell batch = Inr (d, pos1, cell1) \<Longrightarrow> writes_only {strain_key} data d"
  by (auto simp: stress_batch_def Let_def bindE_Inl_iff bindE_Inr_iff at_state_Inl_iff
      at_state_Inr_iff writes_only_def split: if_splits)

lemma stress_single_writes:
  "stress_single sv data pos cell = Inl (e, d) \<Longrightarrow> writes_only {strain_key} data d"
  "stress_single sv data pos cell = Inr (d, pos1, cell1) \<Longrightarrow> writes_only {strain_key} data d"
  by (auto simp: stress_single_def Let_def bindE_Inl_iff bindE_Inr_iff at_state_Inl_iff
      at_state_Inr_iff writes_only_def split: if_splits)

lemma writes_only_mono: "writes_only ks d d' \<Longrightarrow> ks \<subseteq> ks' \<Longrightarrow> writes_only ks' d d'"
  by (auto simp: writes_only_def)

lemma stress_step_writes:
  assumes "(if is_batch_data self then stress_batch sv data pos cell batch
           else stress_single sv data pos cell) = r"
    and "r = Inl (e, d) \<or> r = Inr (d, pos1, cell1)"
  shows "writes_only {KEY_EDGE_VEC, KEY_EDGE_LENGTH, strain_key} data d"
proof -
  have "writes_only {strain_key} data d"
    using assms stress_batch_writes [of sv data pos cell batch]
      stress_single_writes [of sv data pos cell]
    by (auto split: if_splits)
  then show ?thesis
    by (rule writes_only_mono) simp
qed

lemma forward_at_writes:
  "writes_only ({KEY_EDGE_VEC, KEY_EDGE_LENGTH} \<union> (if is_stress self then {strain_key} else {}))
     data (dict_after (EdgePreprocess_forward_at sv self data))"
proof -
  let ?ks = "{KEY_EDGE_VEC, KEY_EDGE_LENGTH} \<union> (if is_stress self then {strain_key} else {})"
  show ?thesis
  proof (cases "EdgePreprocess_forward_at sv self data")
    case (Inl z)
    obtain e d where z: "z = (e, d)"
      by (cases z)
    have "writes_only ?ks data d"
      using Inl [unfolded EdgePreprocess_forward_at_def Let_def z]
      by (auto simp: bindE_Inl_iff bindE_Inr_iff at_state_Inl_iff at_state_Inr_iff
          writes_only_refl
          intro!: writes_only_upd
          dest: stress_step_writes [OF refl disjI1] stress_step_writes [OF refl disjI2]
          simp del: fun_upd_apply)
    then show ?thesis
      by (simp add: Inl z dict_after_def)
  next
    case (Inr d')
    have "writes_only ?ks data d'"
      using Inr [unfolded EdgePreprocess_forward_at_def Let_def]
      by (auto simp: bindE_Inr_iff at_state_Inr_iff writes_only_refl
          intro!: writes_only_upd
          dest: stress_step_writes [OF refl disjI2]
          simp del: fun_upd_apply)
    then show ?thesis
      by (simp add: Inr dict_after_def)
  qed
qed

lemma upt3: "[0..<3] = [0, 1, 2]"
  by (simp add: upt_rec)

lemma sample_lookup:
  "sample_data KEY_POS = Some sample_pos"
  "sample_data KEY_CELL = Some sample_cell"
  "sample_data KEY_CELL_SHIFT = Some sample_shift"
  "sample_data KEY_EDGE_IDX = Some sample_edges"
  "sample_data KEY_BATCH = Some sample_batch"
  by (simp_all add: sample_data_def KEY_defs)

lemma sample_cells:
  "graph_cells \<lparr>is_stress = s, is_batch_data = True\<rparr> sample_cell =
     Inr [[[Some 4, Some 0, Some 0], [Some 0, Some 4, Some 0], [Some 0, Some 0, Some 4]]]"
  "graph_cells \<lparr>is_stress = s, is_batch_data = False\<rparr> sample_cell =
     Inr [[[Some 4, Some 0, Some 0], [Some 0, Some 4, Some 0], [Some 0, Some 0, Some 4]]]"
  by (simp_all add: graph_cells_def sample_cell_def view_m1_3_3_def view_3_3_def numel_def
      view_blocks_def view_matrix_def bindE_def)

lemma sqrt_sample: "sqrt (9 / 4) = 3 / 2" "sqrt (25 / 4) = 5 / 2"
  by (rule real_sqrt_unique; simp add: power2_eq_square)+

lemma list2: "length xs = 2 \<Longrightarrow> xs = [xs ! 0, xs ! 1]"
  by (cases xs; cases "tl xs") auto

lemma list3: "length xs = 3 \<Longrightarrow> xs = [xs ! 0, xs ! 1, xs ! 2]"
  by (cases xs; cases "tl xs"; cases "tl (tl xs)") auto

text \<open>
  Claim C3. A forward call, in either stress mode and whether it returns or raises, leaves the
  POSITION and CELL entries of the dictionary as they were: the strained positions and cell
  are new tensors. The only keys it writes are EDGE_VEC, EDGE_LENGTH and, in stress mode, the
  strain key.
\<close>

theorem EdgePreprocess_forward_frame:
  "(let d' = dict_after (EdgePreprocess_forward self data) in
     d' KEY_POS = data KEY_POS \<and> d' KEY_CELL = data KEY_CELL
     \<and> (\<forall>k. k \<notin> {KEY_EDGE_VEC, KEY_EDGE_LENGTH, strain_key} \<longrightarrow> d' k = data k)
     \<and> (\<not> is_stress self \<longrightarrow> d' strain_key = data strain_key))"
proof -
  let ?d = "dict_after (EdgePreprocess_forward self data)"
  have w: "writes_only
      ({KEY_EDGE_VEC, KEY_EDGE_LENGTH} \<union> (if is_stress self then {strain_key} else {}))
      data ?d"
    unfolding EdgePreprocess_forward_def by (rule forward_at_writes)
  have "?d KEY_POS = data KEY_POS" "?d KEY_CELL = data KEY_CELL"
    using w by (simp_all add: writes_only_def KEY_defs)
  moreover have "\<forall>k. k \<notin> {KEY_EDGE_VEC, KEY_EDGE_LENGTH, strain_key} \<longrightarrow> ?d k = data k"
    using w by (simp add: writes_only_def)
  moreover have "\<not> is_stress self \<longrightarrow> ?d strain_key = data strain_key"
    using w by (simp add: writes_only_def KEY_defs)
  ultimately show ?thesis
    unfolding Let_def by blast
qed

theorem EdgePreprocess_forward_frame_witness:
  "dict_after (EdgePreprocess_forward \<lparr>is_stress = True, is_batch_data = True\<rparr> sample_data)
      KEY_POS = Some sample_pos
   \<and> dict_after (EdgePreprocess_forward \<lparr>is_stress = True, is_batch_data = True\<rparr> sample_data)
      KEY_CELL = Some sample_cell
   \<and> dict_after (EdgePreprocess_forward \<lparr>is_stress = True, is_batch_data = True\<rparr> sample_data)
      KEY_BATCH = Some sample_batch
   \<and> dict_after (EdgePreprocess_forward \<lparr>is_stress = False, is_batch_data = True\<rparr> sample_data)
      strain_key = None"
proof -
  have k: "KEY_BATCH \<notin> {KEY_EDGE_VEC, KEY_EDGE_LENGTH, strain_key}"
    by (simp add: KEY_defs)
  have s: "sample_data strain_key = None"
    by (simp add: sample_data_def KEY_defs)
  show ?thesis
    using EdgePreprocess_forward_frame [of "\<lparr>is_stress = True, is_batch_data = True\<rparr>" sample_data]
      EdgePreprocess_forward_frame [of "\<lparr>is_stress = False, is_batch_data = True\<rparr>" sample_data]
      k s
    unfolding Let_def by (simp add: sample_lookup)
qed

text \<open>
  Claim C10. Forward reads the BATCH key whatever the mode: in single-graph mode with stress
  off, as in every other mode, a call on a dictionary without BATCH raises and writes nothing.
  The error is the KeyError of BATCH when the reads before it succeed (CELL with its reshape,
  CELL_SHIFT and POSITION); otherwise it is the KeyError of one of those keys or the
  RuntimeError of the reshape.
\<close>

theorem EdgePreprocess_forward_requires_batch:
  assumes "data KEY_BATCH = None"
  shows "(\<exists>e. EdgePreprocess_forward self data = Inl (e, data))
       \<and> (\<forall>cellT. data KEY_CELL = Some cellT
            \<and> (if is_batch_data self then view_m1_3_3 cellT else view_3_3 cellT) \<noteq> Inl RuntimeError
            \<and> data KEY_CELL_SHIFT \<noteq> None \<and> data KEY_POS \<noteq> None
          \<longrightarrow> EdgePreprocess_forward self data = Inl (KeyError KEY_BATCH, data))
       \<and> (\<forall>e. EdgePreprocess_forward self data = Inl (e, data) \<longrightarrow>
             (\<exists>k. e = KeyError k)
             \<or> (\<exists>cellT. data KEY_CELL = Some cellT \<and> e = RuntimeError
                  \<and> (if is_batch_data self then view_m1_3_3 cellT else view_3_3 cellT) = Inl e))"
proof -
  show ?thesis
    unfolding EdgePreprocess_forward_def EdgePreprocess_forward_at_def
    using assms
    by (cases "data KEY_CELL"; cases "data KEY_CELL_SHIFT"; cases "data KEY_POS";
        cases "is_batch_data self")
       (auto simp: bindE_def at_state_def getitem_def view_m1_3_3_def view_3_3_def
          split: sum.splits)
qed

theorem EdgePreprocess_forward_requires_batch_witness:
  "EdgePreprocess_forward \<lparr>is_stress = False, is_batch_data = False\<rparr>
      (sample_data(KEY_BATCH := None)) =
     Inl (KeyError KEY_BATCH, sample_data(KEY_BATCH := None))
   \<and> EdgePreprocess_forward \<lparr>is_stress = True, is_batch_data = True\<rparr>
      (sample_data(KEY_BATCH := None)) =
     Inl (KeyError KEY_BATCH, sample_data(KEY_BATCH := None))"
proof -
  let ?d = "sample_data(KEY_BATCH := None)"
  have b: "?d KEY_BATCH = None"
    by simp
  have l: "?d KEY_CELL = Some sample_cell" "?d KEY_CELL_SHIFT \<noteq> None" "?d KEY_POS \<noteq> None"
    by (simp_all add: sample_data_def KEY_defs)
  have v: "view_m1_3_3 sample_cell \<noteq> Inl RuntimeError" "view_3_3 sample_cell \<noteq> Inl RuntimeError"
    by (simp_all add: view_m1_3_3_def view_3_3_def numel_def sample_cell_def)
  show ?thesis
    using EdgePreprocess_forward_requires_batch
        [where data = ?d and self = "\<lparr>is_stress = False, is_batch_data = False\<rparr>"]
      EdgePreprocess_forward_requires_batch
        [where data = ?d and self = "\<lparr>is_stress = True, is_batch_data = True\<rparr>"] b l v
    by simp
qed

lemma index_select_nat:
  "in_range idx (length xs) \<Longrightarrow> index_select xs idx = Inr (map (\<lambda>i. xs ! nat i) idx)"
  by (induction idx) (simp_all add: in_range_def norm_index_def)

lemma in_range_nth: "in_range idx n \<Longrightarrow> e < length idx \<Longrightarrow> 0 \<le> idx ! e \<and> nat (idx ! e) < n"
  by (auto simp: in_range_def list_all_length)

lemma rows3_nth: "rows3 xs \<Longrightarrow> k < length xs \<Longrightarrow> length (xs ! k) = 3"
  by (simp add: rows3_def list_all_length)

lemma vecmat_length: "length (vecmat v m) = 3"
  by (simp add: vecmat_def)

lemma vecmat_nth:
  "j < 3 \<Longrightarrow> vecmat v m ! j = fl_sum (map (\<lambda>i. fl_mul (v ! i) (m ! i ! j)) [0..<3])"
  by (simp add: vecmat_def)

lemma view_blocks_cases:
  "view_m1_3_3 t = Inr c \<Longrightarrow> (\<exists>xs. entries c = Float3 xs) \<or> (\<exists>xs. entries c = Long3 xs)"
  by (auto simp: view_m1_3_3_def view_blocks_def split: if_splits tdata.splits)

lemma view_matrix_cases:
  "view_3_3 t = Inr c \<Longrightarrow> (\<exists>xs. entries c = Float2 xs) \<or> (\<exists>xs. entries c = Long2 xs)"
  by (auto simp: view_3_3_def view_matrix_def split: if_splits tdata.splits)

lemma view_requires_grad:
  "view_m1_3_3 t = Inr c \<Longrightarrow> requires_grad c = requires_grad t"
  "view_3_3 t = Inr c \<Longrightarrow> requires_grad c = requires_grad t"
  by (auto simp: view_m1_3_3_def view_3_3_def split: if_splits)

lemma graph_cells_view:
  assumes "graph_cells self cellT = Inr cells"
  shows "\<exists>c. (if is_batch_data self then view_m1_3_3 cellT else view_3_3 cellT) = Inr c
           \<and> requires_grad c = requires_grad cellT
           \<and> (if is_batch_data self then entries c = Float3 cells
               else (\<exists>m. entries c = Float2 m \<and> cells = [m]))"
proof -
  obtain c where c: "(if is_batch_data self then view_m1_3_3 cellT else view_3_3 cellT) = Inr c"
    and e: "(case entries c of Float3 cs \<Rightarrow> Inr cs | Float2 m \<Rightarrow> Inr [m]
              | _ \<Rightarrow> Inl RuntimeError) = Inr cells"
    using assms by (auto simp: graph_cells_def bindE_Inr_iff)
  have g: "requires_grad c = requires_grad cellT"
    using c view_requires_grad [of cellT c] by (auto split: if_splits)
  show ?thesis
  proof (cases "is_batch_data self")
    case True
    then have "(\<exists>xs. entries c = Float3 xs) \<or> (\<exists>xs. entries c = Long3 xs)"
      using c view_blocks_cases by simp
    with e True c g show ?thesis
      by auto
  next
    case False
    then have "(\<exists>xs. entries c = Float2 xs) \<or> (\<exists>xs. entries c = Long2 xs)"
      using c view_matrix_cases by simp
    with e False c g show ?thesis
      by auto
  qed
qed

lemma edge_vectors_eq:
  assumes idx: "data KEY_EDGE_IDX = Some eiT" "entries eiT = Long2 [src, dst]"
    "length dst = length src"
    and pos: "entries posT = Float2 pos" "rows3 pos"
    and cs: "entries csT = Float2 cs" "rows3 cs" "length cs = length src"
    and rng: "in_range src (length pos)" "in_range dst (length pos)"
    and cell: "if is_batch_data self
               then entries cellV = Float3 cells \<and> entries batchT = Long1 batch
                    \<and> length batch = length pos \<and> in_range batch (length cells)
               else (\<exists>m. entries cellV = Float2 m \<and> cells = [m])"
  shows "edge_vectors self data posT cellV csT batchT =
         Inr \<lparr>entries = Float2 (edge_rows self pos cells cs batch src dst),
              requires_grad = (requires_grad posT \<or> requires_grad csT \<or> requires_grad cellV)\<rparr>"
proof -
  have sel: "select_row [src, dst] 0 = Inr src" "select_row [src, dst] 1 = Inr dst"
    by (simp_all add: select_row_def norm_index_def)
  have pd: "index_select pos dst = Inr (map (\<lambda>i. pos ! nat i) dst)"
    and ps: "index_select pos src = Inr (map (\<lambda>i. pos ! nat i) src)"
    using rng by (simp_all add: index_select_nat)
  let ?ev = "msub (map (\<lambda>i. pos ! nat i) dst) (map (\<lambda>i. pos ! nat i) src)"
  have len: "length ?ev = length src"
    using idx(3) by (simp add: msub_def)
  have r3: "rows3 ?ev"
    unfolding rows3_def list_all_length
  proof (intro allI impI)
    fix e assume e: "e < length ?ev"
    then have "e < length src" "e < length dst"
      using len idx(3) by simp_all
    then have "length (pos ! nat (dst ! e)) = 3" "length (pos ! nat (src ! e)) = 3"
      using rng pos(2) by (simp_all add: rows3_nth in_range_nth)
    then show "length (?ev ! e) = 3"
      using \<open>e < length src\<close> \<open>e < length dst\<close> by (simp add: msub_def vsub_def)
  qed
  show ?thesis
  proof (cases "is_batch_data self")
    case True
    then have c: "entries cellV = Float3 cells" "entries batchT = Long1 batch"
      "length batch = length pos" "in_range batch (length cells)"
      using cell by simp_all
    have bs: "index_select batch src = Inr (map (\<lambda>i. batch ! nat i) src)"
      using rng(1) c(3) by (simp add: index_select_nat)
    have "in_range (map (\<lambda>i. batch ! nat i) src) (length cells)"
      using c(4) rng(1) c(3) by (auto simp: in_range_def list_all_length)
    then have cb: "index_select cells (map (\<lambda>i. batch ! nat i) src) =
        Inr (map (\<lambda>s. cells ! owning_graph self batch s) src)"
      using True by (simp add: index_select_nat owning_graph_def comp_def)
    show ?thesis
      unfolding edge_vectors_def Let_def
      using True len r3
      by (simp add: getitem_def idx bindE_def as_long2_def sel as_float2_def pos pd ps
          as_long1_def c bs as_float3_def cb cs edge_rows_def)
  next
    case False
    then obtain m where m: "entries cellV = Float2 m" "cells = [m]"
      using cell by auto
    have "matmul cs m = map2 vecmat cs (map (\<lambda>s. [m] ! owning_graph self batch s) src)"
      using False cs(3)
      by (intro nth_equalityI) (simp_all add: matmul_def owning_graph_def)
    then have "matmul cs m = map2 vecmat cs (map (\<lambda>s. cells ! owning_graph self batch s) src)"
      by (simp only: m(2))
    then show ?thesis
      unfolding edge_vectors_def Let_def
      using False len r3
      by (simp add: getitem_def idx bindE_def as_long2_def sel as_float2_def pos pd ps
          m cs edge_rows_def matmul_def)
  qed
qed

lemma edge_rows_length:
  assumes "length dst = length src" and "length cs = length src"
  shows "length (edge_rows self pos cells cs batch src dst) = length src"
  using assms by (simp add: edge_rows_def madd_def msub_def)

lemma edge_rows_nth:
  assumes "length dst = length src" and "length cs = length src" and "rows3 pos"
    and "in_range src (length pos)" and "in_range dst (length pos)"
    and e: "e < length src"
  shows "length (edge_rows self pos cells cs batch src dst ! e) = 3"
    and "j < 3 \<Longrightarrow> edge_rows self pos cells cs batch src dst ! e ! j =
      fl_add (fl_sub (pos ! nat (dst ! e) ! j) (pos ! nat (src ! e) ! j))
        (fl_sum (map (\<lambda>i. fl_mul (cs ! e ! i)
                         (cells ! owning_graph self batch (src ! e) ! i ! j)) [0..<3]))"
proof -
  have l: "length (pos ! nat (dst ! e)) = 3" "length (pos ! nat (src ! e)) = 3"
    using assms by (simp_all add: rows3_nth in_range_nth)
  have row: "edge_rows self pos cells cs batch src dst ! e =
      vadd (vsub (pos ! nat (dst ! e)) (pos ! nat (src ! e)))
        (vecmat (cs ! e) (cells ! owning_graph self batch (src ! e)))"
    using assms(1,2) e by (simp add: edge_rows_def madd_def msub_def)
  show "length (edge_rows self pos cells cs batch src dst ! e) = 3"
    using l by (simp add: row vadd_def vsub_def vecmat_length)
  show "edge_rows self pos cells cs batch src dst ! e ! j =
      fl_add (fl_sub (pos ! nat (dst ! e) ! j) (pos ! nat (src ! e) ! j))
        (fl_sum (map (\<lambda>i. fl_mul (cs ! e ! i)
                         (cells ! owning_graph self batch (src ! e) ! i ! j)) [0..<3]))"
    if "j < 3"
    using that l by (simp add: row vadd_def vsub_def vecmat_length vecmat_nth)
qed

lemma norm_row_real:
  "norm_row [Some x, Some y, Some z] = Some (sqrt (x\<^sup>2 + y\<^sup>2 + z\<^sup>2))"
proof -
  have "\<not> x * x + (y * y + z * z) < 0"
    by (simp add: not_less)
  then show ?thesis
    by (simp add: norm_row_def power2_eq_square add.assoc)
qed

text \<open>
  Claim C2. With stress mode off, on well-formed graph data (rows of three entries, indices in
  range, one cell shift per edge), forward returns the dictionary with two keys written:
  EDGE_VEC, whose row for an edge is position[destination] - position[source] + the cell shift
  contracted with the cell of the owning graph (the graph of the source atom on batched
  data), and EDGE_LENGTH, the Euclidean norm of each row. It writes no strain key.
\<close>

theorem EdgePreprocess_forward_no_stress:
  assumes "\<not> is_stress self"
    and "data KEY_POS = Some posT" and "entries posT = Float2 pos" and "rows3 pos"
    and "data KEY_CELL_SHIFT = Some csT" and "entries csT = Float2 cs" and "rows3 cs"
    and "length cs = length src"
    and "data KEY_EDGE_IDX = Some eiT" and "entries eiT = Long2 [src, dst]"
    and "length dst = length src"
    and "in_range src (length pos)" and "in_range dst (length pos)"
    and "data KEY_BATCH = Some batchT"
    and "data KEY_CELL = Some cellT" and "graph_cells self cellT = Inr cells"
    and "is_batch_data self \<longrightarrow>
           entries batchT = Long1 batch \<and> length batch = length pos
           \<and> in_range batch (length cells)"
  shows "\<exists>ev.
           EdgePreprocess_forward self data =
             Inr (data(KEY_EDGE_VEC \<mapsto> \<lparr>entries = Float2 ev, requires_grad =
                (requires_grad posT \<or> requires_grad csT \<or> requires_grad cellT)\<rparr>,
                       KEY_EDGE_LENGTH \<mapsto>
                         \<lparr>entries = Float1 (map norm_row ev), requires_grad =
                (requires_grad posT \<or> requires_grad csT \<or> requires_grad cellT)\<rparr>))
         \<and> length ev = length src
         \<and> (\<forall>e j. e < length src \<and> j < 3 \<longrightarrow>
               length (ev ! e) = 3
               \<and> ev ! e ! j =
                   fl_add (fl_sub (pos ! nat (dst ! e) ! j) (pos ! nat (src ! e) ! j))
                     (fl_sum (map (\<lambda>i. fl_mul (cs ! e ! i)
                        (cells ! owning_graph self batch (src ! e) ! i ! j)) [0..<3])))
         \<and> (\<forall>e x y z. e < length src \<and> ev ! e = [Some x, Some y, Some z] \<longrightarrow>
               map norm_row ev ! e = Some (sqrt (x\<^sup>2 + y\<^sup>2 + z\<^sup>2)))
         \<and> (data(KEY_EDGE_VEC \<mapsto> \<lparr>entries = Float2 ev, requires_grad =
                (requires_grad posT \<or> requires_grad csT \<or> requires_grad cellT)\<rparr>,
                  KEY_EDGE_LENGTH \<mapsto>
                    \<lparr>entries = Float1 (map norm_row ev), requires_grad =
                (requires_grad posT \<or> requires_grad csT \<or> requires_grad cellT)\<rparr>)) strain_key
             = data strain_key"
proof -
  obtain cellV where v: "(if is_batch_data self then view_m1_3_3 cellT else view_3_3 cellT)
        = Inr cellV"
    and cv: "if is_batch_data self then entries cellV = Float3 cells
             else (\<exists>m. entries cellV = Float2 m \<and> cells = [m])"
    and cg: "requires_grad cellV = requires_grad cellT"
    using graph_cells_view [OF assms(16)] by blast
  let ?ev = "edge_rows self pos cells cs batch src dst"
  let ?rg = "requires_grad posT \<or> requires_grad csT \<or> requires_grad cellT"
  have c: "if is_batch_data self
               then entries cellV = Float3 cells \<and> entries batchT = Long1 batch
                    \<and> length batch = length pos \<and> in_range batch (length cells)
               else (\<exists>m. entries cellV = Float2 m \<and> cells = [m])"
    using cv assms(17) by (simp split: if_splits)
  have "edge_vectors self data posT cellV csT batchT =
      Inr \<lparr>entries = Float2 ?ev,
           requires_grad = (requires_grad posT \<or> requires_grad csT \<or> requires_grad cellV)\<rparr>"
    using assms(9,10,11) assms(3,4) assms(6,7,8) assms(12,13) c by (rule edge_vectors_eq)
  then have ev: "edge_vectors self data posT cellV csT batchT =
      Inr \<lparr>entries = Float2 ?ev, requires_grad = ?rg\<rparr>"
    by (simp only: cg)
  have fwd: "EdgePreprocess_forward self data =
      Inr (data(KEY_EDGE_VEC \<mapsto> \<lparr>entries = Float2 ?ev, requires_grad = ?rg\<rparr>,
                KEY_EDGE_LENGTH \<mapsto>
                  \<lparr>entries = Float1 (map norm_row ?ev), requires_grad = ?rg\<rparr>))"
    unfolding EdgePreprocess_forward_def EdgePreprocess_forward_at_def Let_def
    using assms(1) v
    by (simp add: getitem_def assms(2,5,14,15) bindE_def at_state_def ev linalg_norm_def)
  have len: "length ?ev = length src"
    by (rule edge_rows_length [OF assms(11) assms(8)])
  have comp: "length (?ev ! e) = 3
      \<and> ?ev ! e ! j =
          fl_add (fl_sub (pos ! nat (dst ! e) ! j) (pos ! nat (src ! e) ! j))
            (fl_sum (map (\<lambda>i. fl_mul (cs ! e ! i)
               (cells ! owning_graph self batch (src ! e) ! i ! j)) [0..<3]))"
    if "e < length src" "j < 3" for e j
    using edge_rows_nth [OF assms(11) assms(8) assms(4) assms(12,13) that(1)] that(2)
    by simp
  have nrm: "map norm_row ?ev ! e = Some (sqrt (x\<^sup>2 + y\<^sup>2 + z\<^sup>2))"
    if "e < length src" "?ev ! e = [Some x, Some y, Some z]" for e x y z
    using that len by (simp add: norm_row_real)
  have frame: "(data(KEY_EDGE_VEC \<mapsto> \<lparr>entries = Float2 ?ev, requires_grad = ?rg\<rparr>,
                  KEY_EDGE_LENGTH \<mapsto>
                    \<lparr>entries = Float1 (map norm_row ?ev), requires_grad = ?rg\<rparr>)) strain_key
             = data strain_key"
    by (simp add: KEY_defs)
  show ?thesis
    using fwd len comp nrm frame by blast
qed

theorem EdgePreprocess_forward_no_stress_witness:
  "EdgePreprocess_forward \<lparr>is_stress = False, is_batch_data = True\<rparr> sample_data =
     Inr (sample_data(KEY_EDGE_VEC \<mapsto> sample_edge_vec, KEY_EDGE_LENGTH \<mapsto> sample_edge_length))
   \<and> EdgePreprocess_forward \<lparr>is_stress = False, is_batch_data = False\<rparr> sample_data =
     Inr (sample_data(KEY_EDGE_VEC \<mapsto> sample_edge_vec, KEY_EDGE_LENGTH \<mapsto> sample_edge_length))"
proof -
  let ?pos = "[[Some 0, Some 0, Some 0], [Some (3 / 2), Some 0, Some (0::real)]]"
  let ?cs = "[[Some 0, Some 0, Some 0], [Some 1, Some 0, Some (0::real)]]"
  let ?cells = "[[[Some 4, Some 0, Some 0], [Some 0, Some 4, Some 0],
                  [Some 0, Some 0, Some (4::real)]]]"
  have h: "rows3 ?pos" "rows3 ?cs" "length ?cs = length [0, 1::int]"
    "length [1, 0::int] = length [0, 1::int]"
    "in_range [0, 1] (length ?pos)" "in_range [1, 0] (length ?pos)"
    by (simp_all add: rows3_def in_range_def)
  have b: "is_batch_data \<lparr>is_stress = False, is_batch_data = b\<rparr> \<longrightarrow>
      entries sample_batch = Long1 [0, 0] \<and> length [0, 0::int] = length ?pos
      \<and> in_range [0, 0] (length ?cells)" for b
    by (simp add: sample_batch_def in_range_def)
  have e: "entries sample_pos = Float2 ?pos" "entries sample_shift = Float2 ?cs"
    "entries sample_edges = Long2 [[0, 1], [1, 0]]"
    by (simp_all add: sample_pos_def sample_shift_def sample_edges_def)
  have n: "\<not> is_stress \<lparr>is_stress = False, is_batch_data = b\<rparr>" for b
    by simp
  have r: "norm_row [Some (3 / 2), Some 0, Some 0] = Some (3 / 2)"
    "norm_row [Some (5 / 2), Some 0, Some 0] = Some (5 / 2)"
    by (simp_all add: norm_row_def sqrt_sample)
  note t = EdgePreprocess_forward_no_stress [OF n sample_lookup(1) e(1) h(1) sample_lookup(3)
      e(2) h(2) h(3) sample_lookup(4) e(3) h(4) h(5) h(6) sample_lookup(5) sample_lookup(2)]
  have "EdgePreprocess_forward \<lparr>is_stress = False, is_batch_data = b\<rparr> sample_data =
     Inr (sample_data(KEY_EDGE_VEC \<mapsto> sample_edge_vec, KEY_EDGE_LENGTH \<mapsto> sample_edge_length))"
    if c: "graph_cells \<lparr>is_stress = False, is_batch_data = b\<rparr> sample_cell = Inr ?cells" for b
  proof -
    obtain ev where fwd: "EdgePreprocess_forward \<lparr>is_stress = False, is_batch_data = b\<rparr>
          sample_data =
        Inr (sample_data(KEY_EDGE_VEC \<mapsto> \<lparr>entries = Float2 ev, requires_grad =
               (requires_grad sample_pos \<or> requires_grad sample_shift
                \<or> requires_grad sample_cell)\<rparr>,
             KEY_EDGE_LENGTH \<mapsto> \<lparr>entries = Float1 (map norm_row ev), requires_grad =
               (requires_grad sample_pos \<or> requires_grad sample_shift
                \<or> requires_grad sample_cell)\<rparr>))"
      and len: "length ev = length [0, 1::int]"
      and comp: "\<forall>e j. e < length [0, 1::int] \<and> j < 3 \<longrightarrow> length (ev ! e) = 3 \<and> ev ! e ! j =
         fl_add (fl_sub (?pos ! nat ([1, 0] ! e) ! j) (?pos ! nat ([0, 1] ! e) ! j))
           (fl_sum (map (\<lambda>i. fl_mul (?cs ! e ! i)
              (?cells ! owning_graph \<lparr>is_stress = False, is_batch_data = b\<rparr> [0, 0] ([0, 1] ! e)
                 ! i ! j)) [0..<3]))"
      using t [OF c b] by blast
    have c: "length (ev ! e) = 3 \<and> ev ! e ! j =
         fl_add (fl_sub (?pos ! nat ([1, 0] ! e) ! j) (?pos ! nat ([0, 1] ! e) ! j))
           (fl_sum (map (\<lambda>i. fl_mul (?cs ! e ! i)
              (?cells ! owning_graph \<lparr>is_stress = False, is_batch_data = b\<rparr> [0, 0] ([0, 1] ! e)
                 ! i ! j)) [0..<3]))" if "e < 2" "j < 3" for e j
      using comp that by simp
    have "ev ! 0 = [Some (3 / 2), Some 0, Some 0]"
      using c [of 0 0] c [of 0 1] c [of 0 2] list3 [of "ev ! 0"]
      by (simp add: upt3 owning_graph_def)
    moreover have "ev ! 1 = [Some (5 / 2), Some 0, Some 0]"
      using c [of 1 0] c [of 1 1] c [of 1 2] list3 [of "ev ! 1"]
      by (simp add: upt3 owning_graph_def)
    ultimately have "ev = [[Some (3 / 2), Some 0, Some 0], [Some (5 / 2), Some 0, Some 0]]"
      using list2 [of ev] len by simp
    then show ?thesis
      using fwd by (simp add: r sample_edge_vec_def sample_edge_length_def sample_pos_def)
  qed
  from this [OF sample_cells(1)] this [OF sample_cells(2)] show ?thesis
    by blast
qed

section \<open>Properties of the edge embedding\<close>

lemma preprocess_length:
  assumes "EdgePreprocess_forward_at sv m d0 = Inr d1"
  shows "\<exists>t el. d1 KEY_EDGE_VEC = Some t \<and> linalg_norm t = Inr el \<and> d1 KEY_EDGE_LENGTH = Some el"
  using assms unfolding EdgePreprocess_forward_at_def Let_def
  by (auto simp: bindE_Inr_iff at_state_Inr_iff KEY_defs)

lemma linalg_norm_rows:
  "entries t = Float2 ev \<Longrightarrow>
   linalg_norm t = Inr \<lparr>entries = Float1 (map norm_row ev), requires_grad = requires_grad t\<rparr>"
  by (cases t) (simp add: linalg_norm_def)

text \<open>
  Claim C7. Given a dictionary with an EDGE_VEC, the assembler computes EDGE_LENGTH again as
  the Euclidean norm of each edge vector (the value the preprocessing wrote for the same
  EDGE_VEC), writes EDGE_EMBEDDING as the radial basis of the lengths with every row scaled by
  the cutoff of its length, and writes EDGE_ATTR as the angular encoding of EDGE_VEC. The
  three modules are the injected ones, each returning one row, or one entry, per edge.
\<close>

theorem EdgeEmbedding_forward_assembles:
  assumes "data KEY_EDGE_VEC = Some rvec" and "entries rvec = Float2 ev"
    and "r = \<lparr>entries = Float1 (map norm_row ev), requires_grad = requires_grad rvec\<rparr>"
    and "basis_function self r = Inr b" and "entries b = Float2 rows"
    and "length rows = length ev"
    and "cutoff_function self r = Inr c" and "entries c = Float1 ws"
    and "length ws = length ev"
    and "spherical self rvec = Inr attr"
  shows "\<exists>emb.
           EdgeEmbedding_forward self data =
             Inr (data(KEY_EDGE_LENGTH \<mapsto> r,
                       KEY_EDGE_EMBEDDING \<mapsto>
                         \<lparr>entries = Float2 emb,
                          requires_grad = (requires_grad b \<or> requires_grad c)\<rparr>,
                       KEY_EDGE_ATTR \<mapsto> attr))
         \<and> length emb = length ev
         \<and> (\<forall>e n. e < length ev \<and> n < length (rows ! e) \<longrightarrow>
               length (emb ! e) = length (rows ! e)
               \<and> emb ! e ! n = fl_mul (rows ! e ! n) (ws ! e))
         \<and> (\<forall>e x y z. e < length ev \<and> ev ! e = [Some x, Some y, Some z] \<longrightarrow>
               map norm_row ev ! e = Some (sqrt (x\<^sup>2 + y\<^sup>2 + z\<^sup>2)))
         \<and> (\<forall>m d0 d1. EdgePreprocess_forward m d0 = Inr d1 \<and> d1 KEY_EDGE_VEC = Some rvec \<longrightarrow>
               d1 KEY_EDGE_LENGTH = Some r)"
proof -
  let ?emb = "map2 (\<lambda>row w. map (\<lambda>x. fl_mul x w) row) rows ws"
  have n: "linalg_norm rvec = Inr r"
    using linalg_norm_rows [OF assms(2)] assms(3) by simp
  have m: "mul_unsqueeze b c =
      Inr \<lparr>entries = Float2 ?emb, requires_grad = (requires_grad b \<or> requires_grad c)\<rparr>"
    using assms(6,9) by (simp add: mul_unsqueeze_def as_float2_def assms(5,8) bindE_def)
  have fwd: "EdgeEmbedding_forward self data =
      Inr (data(KEY_EDGE_LENGTH \<mapsto> r,
                KEY_EDGE_EMBEDDING \<mapsto>
                  \<lparr>entries = Float2 ?emb,
                   requires_grad = (requires_grad b \<or> requires_grad c)\<rparr>,
                KEY_EDGE_ATTR \<mapsto> attr))"
    unfolding EdgeEmbedding_forward_def Let_def
    by (simp add: getitem_def assms(1) bindE_def at_state_def n assms(4,7,10) m)
  have len: "length ?emb = length ev"
    using assms(6,9) by simp
  have comp: "length (?emb ! e) = length (rows ! e)
      \<and> ?emb ! e ! n = fl_mul (rows ! e ! n) (ws ! e)"
    if "e < length ev" "n < length (rows ! e)" for e n
    using that assms(6,9) by simp
  have nrm: "map norm_row ev ! e = Some (sqrt (x\<^sup>2 + y\<^sup>2 + z\<^sup>2))"
    if "e < length ev" "ev ! e = [Some x, Some y, Some z]" for e x y z
    using that by (simp add: norm_row_real)
  have same: "d1 KEY_EDGE_LENGTH = Some r"
    if "EdgePreprocess_forward m d0 = Inr d1" "d1 KEY_EDGE_VEC = Some rvec" for m d0 d1
    using preprocess_length [OF that(1) [unfolded EdgePreprocess_forward_def]] that(2) n
    by auto
  show ?thesis
    using fwd len comp nrm same by blast
qed

theorem EdgeEmbedding_forward_assembles_witness:
  "\<exists>emb. EdgeEmbedding_forward sample_embedding (sample_data(KEY_EDGE_VEC \<mapsto> sample_edge_vec)) =
     Inr (sample_data(KEY_EDGE_VEC \<mapsto> sample_edge_vec, KEY_EDGE_LENGTH \<mapsto> sample_edge_length,
            KEY_EDGE_EMBEDDING \<mapsto> \<lparr>entries = Float2 emb, requires_grad = True\<rparr>,
            KEY_EDGE_ATTR \<mapsto> sample_edge_vec))
     \<and> length emb = 2"
proof -
  let ?d = "sample_data(KEY_EDGE_VEC \<mapsto> sample_edge_vec)"
  let ?ev = "[[Some (3 / 2), Some 0, Some 0], [Some (5 / 2), Some 0, Some (0::real)]]"
  let ?bb = "\<lparr>num_basis = 2, prefactor = 1, coeffs = [pi / 2, 2 * pi / 2], trainable = True\<rparr>"
  have 1: "?d KEY_EDGE_VEC = Some sample_edge_vec"
    by simp
  have 2: "entries sample_edge_vec = Float2 ?ev"
    by (simp add: sample_edge_vec_def)
  have 3: "sample_edge_length =
      \<lparr>entries = Float1 (map norm_row ?ev), requires_grad = requires_grad sample_edge_vec\<rparr>"
    by (simp add: sample_edge_length_def sample_edge_vec_def norm_row_def sqrt_sample)
  let ?rows = "map (bessel_row ?bb) [Some (3 / 2), Some (5 / 2)]"
  let ?ws = "map (polynomial_cutoff (PolynomialCutoff_init 6 2)) [Some (3 / 2), Some (5 / 2)]"
  let ?b = "\<lparr>entries = Float2 ?rows, requires_grad = True\<rparr>"
  let ?c = "\<lparr>entries = Float1 ?ws, requires_grad = True\<rparr>"
  have 4: "basis_function sample_embedding sample_edge_length = Inr ?b"
    by (simp add: sample_embedding_def BesselBasis_forward_def sample_edge_length_def)
  have 5: "entries ?b = Float2 ?rows" "length ?rows = length ?ev"
    by simp_all
  have 6: "cutoff_function sample_embedding sample_edge_length = Inr ?c"
    by (simp add: sample_embedding_def PolynomialCutoff_forward_def sample_edge_length_def)
  have 7: "entries ?c = Float1 ?ws" "length ?ws = length ?ev"
    by simp_all
  have 8: "spherical sample_embedding sample_edge_vec = Inr sample_edge_vec"
    by (simp add: sample_embedding_def)
  obtain emb where "EdgeEmbedding_forward sample_embedding ?d =
      Inr (?d(KEY_EDGE_LENGTH \<mapsto> sample_edge_length,
              KEY_EDGE_EMBEDDING \<mapsto>
                \<lparr>entries = Float2 emb, requires_grad = (requires_grad ?b \<or> requires_grad ?c)\<rparr>,
              KEY_EDGE_ATTR \<mapsto> sample_edge_vec))"
    and "length emb = length ?ev"
    using EdgeEmbedding_forward_assembles [where data = ?d, OF 1 2 3 4 5 6 7 8]
    by blast
  then show ?thesis
    by auto
qed

section \<open>Properties of the stress branch\<close>

lemma chunk3_rows: "r \<in> set (chunk3 xs) \<Longrightarrow> length r = 3"
  by (induction xs rule: chunk3.induct) auto

lemma chunk3_subset: "r \<in> set (chunk3 xs) \<Longrightarrow> set r \<subseteq> set xs"
  by (induction xs rule: chunk3.induct) auto

lemma chunk3_length: "length (chunk3 xs) = length xs div 3"
  by (induction xs rule: chunk3.induct) auto

lemma chunk3_chunk3: "c \<in> set (chunk3 (chunk3 xs)) \<Longrightarrow> shape33 c"
  using chunk3_rows [of c "chunk3 xs"] chunk3_subset [of c "chunk3 xs"] chunk3_rows [of _ xs]
  by (auto simp: shape33_def rows3_def list_all_iff)

lemma chunk3_nine: "length xs = 9 \<Longrightarrow> shape33 (chunk3 xs)"
  using chunk3_rows [of _ xs] by (auto simp: shape33_def rows3_def list_all_iff chunk3_length)

lemma graph_cells_shape:
  assumes "graph_cells self cellT = Inr cells" and "c \<in> set cells"
  shows "shape33 c"
proof (cases "is_batch_data self")
  case True
  then show ?thesis
    using assms chunk3_chunk3 [of c]
    by (auto simp: graph_cells_def bindE_Inr_iff view_m1_3_3_def view_blocks_def
        split: if_splits tdata.splits)
next
  case False
  then show ?thesis
    using assms chunk3_nine
    by (auto simp: graph_cells_def bindE_Inr_iff view_3_3_def view_matrix_def numel_def
        split: if_splits tdata.splits)
qed

lemma shape33_explicit:
  assumes "shape33 s"
  shows "\<exists>a b c d e f g h k. s = [[a, b, c], [d, e, f], [g, h, k]]"
proof -
  have "length (s ! 0) = 3" "length (s ! 1) = 3" "length (s ! 2) = 3" "length s = 3"
    using assms by (simp_all add: shape33_def rows3_def list_all_length)
  then show ?thesis
    using list3 [of s] list3 [of "s ! 0"] list3 [of "s ! 1"] list3 [of "s ! 2"]
    by metis
qed

lemma strained_eq:
  assumes "shape33 s" and "length v = 3"
  shows "vadd v (vecmat v (sym_strain s)) = strained s v"
proof -
  obtain a b c d e f g h k where s: "s = [[a, b, c], [d, e, f], [g, h, k]]"
    using shape33_explicit [OF assms(1)] by blast
  obtain x y z where v: "v = [x, y, z]"
    using list3 [OF assms(2)] by blast
  show ?thesis
    unfolding s v
    by (simp add: vadd_def vecmat_def sym_strain_def mscale_def madd_def transpose33_def
        strained_def upt3)
qed

lemma strained_length: "length (strained s v) = 3"
  by (simp add: strained_def)

lemma madd_matmul:
  assumes "shape33 s" and "rows3 a"
  shows "madd a (matmul a (sym_strain s)) = map (strained s) a"
proof (rule nth_equalityI)
  show "length (madd a (matmul a (sym_strain s))) = length (map (strained s) a)"
    by (simp add: madd_def matmul_def)
  fix i assume "i < length (madd a (matmul a (sym_strain s)))"
  then have i: "i < length a"
    by (simp add: madd_def matmul_def)
  then have "length (a ! i) = 3"
    using assms(2) by (simp add: rows3_nth)
  then show "madd a (matmul a (sym_strain s)) ! i = map (strained s) a ! i"
    using i strained_eq [OF assms(1), of "a ! i"] by (simp add: madd_def matmul_def)
qed

lemma stress_batch_eq:
  assumes "is_batch_data self"
    and b: "entries batchT = Long1 batch" "batch \<noteq> []" "in_range batch (length cells)"
      "int (length cells) = Max (set batch) + 1" "length batch = length pos"
    and p: "entries posT = Float2 pos" "rows3 pos"
    and c: "entries cellV = Float3 cells" "\<forall>c\<in>set cells. shape33 c"
    and sv: "\<forall>g. shape33 (sv g)"
  shows "stress_batch sv data posT cellV batchT =
     Inr (data(strain_key \<mapsto>
                 \<lparr>entries = Float3 (map sv [0..<length cells]), requires_grad = True\<rparr>),
          \<lparr>entries = Float2 (strained_pos self sv batch pos), requires_grad = True\<rparr>,
          \<lparr>entries = Float3 (strained_cells sv cells), requires_grad = True\<rparr>)"
proof -
  let ?n = "length cells"
  let ?sym = "map sym_strain (map sv [0..<?n])"
  let ?sym_b = "map (\<lambda>i. ?sym ! nat i) batch"
  have n: "nat (Max (set batch) + 1) = ?n" "\<not> Max (set batch) + 1 < 0"
    using b(4) by simp_all
  have f: "is_float posT"
    by (simp add: is_float_def p(1))
  have sel: "index_select ?sym batch = Inr ?sym_b"
    using b(3) by (simp add: index_select_nat)
  have pos1: "madd pos (map2 vecmat pos ?sym_b) = strained_pos self sv batch pos"
  proof (rule nth_equalityI)
    show "length (madd pos (map2 vecmat pos ?sym_b)) = length (strained_pos self sv batch pos)"
      using b(5) by (simp add: madd_def strained_pos_def)
    fix k assume "k < length (madd pos (map2 vecmat pos ?sym_b))"
    then have k: "k < length pos" "k < length batch"
      using b(5) by (simp_all add: madd_def)
    then have g: "nat (batch ! k) < ?n"
      using b(3) by (simp add: in_range_nth)
    have l: "length (pos ! k) = 3"
      using k(1) p(2) by (simp add: rows3_nth)
    have "madd pos (map2 vecmat pos ?sym_b) ! k =
        vadd (pos ! k) (vecmat (pos ! k) (sym_strain (sv (nat (batch ! k)))))"
      using k g by (simp add: madd_def)
    also have "\<dots> = strained (sv (nat (batch ! k))) (pos ! k)"
      using sv l by (simp add: strained_eq)
    also have "\<dots> = strained_pos self sv batch pos ! k"
      using k(1) assms(1) by (simp add: strained_pos_def owning_graph_def)
    finally show "madd pos (map2 vecmat pos ?sym_b) ! k = strained_pos self sv batch pos ! k" .
  qed
  have cell1: "map2 madd cells (map2 matmul cells ?sym) = strained_cells sv cells"
  proof (rule nth_equalityI)
    show "length (map2 madd cells (map2 matmul cells ?sym)) = length (strained_cells sv cells)"
      by (simp add: strained_cells_def)
    fix g assume "g < length (map2 madd cells (map2 matmul cells ?sym))"
    then have g: "g < ?n"
      by simp
    then have "cells ! g \<in> set cells"
      by simp
    then have "rows3 (cells ! g)"
      using c(2) by (auto simp: shape33_def)
    then show "map2 madd cells (map2 matmul cells ?sym) ! g = strained_cells sv cells ! g"
      using g sv by (simp add: strained_cells_def madd_matmul)
  qed
  show ?thesis
    unfolding stress_batch_def Let_def
    using b(2) b(5) p(2)
    by (simp add: bindE_def at_state_def as_long1_def b(1) n f sel as_float2_def p(1)
        as_float3_def c(1) pos1 cell1 del: map_map)
qed

lemma stress_single_eq:
  assumes "\<not> is_batch_data self"
    and p: "entries posT = Float2 pos" "rows3 pos"
    and c: "entries cellV = Float2 m" "shape33 m"
    and sv: "shape33 (sv 0)"
  shows "stress_single sv data posT cellV =
     Inr (data(strain_key \<mapsto> \<lparr>entries = Float2 (sv 0), requires_grad = True\<rparr>),
          \<lparr>entries = Float2 (strained_pos self sv batch pos), requires_grad = True\<rparr>,
          \<lparr>entries = Float2 (map (strained (sv 0)) m), requires_grad = True\<rparr>)"
proof -
  have f: "is_float posT"
    by (simp add: is_float_def p(1))
  have "map (strained (sv 0)) pos = strained_pos self sv batch pos"
    using assms(1) by (intro nth_equalityI) (simp_all add: strained_pos_def owning_graph_def)
  then have pos1: "madd pos (matmul pos (sym_strain (sv 0))) = strained_pos self sv batch pos"
    using madd_matmul [OF sv p(2)] by simp
  have cell1: "madd m (matmul m (sym_strain (sv 0))) = map (strained (sv 0)) m"
    using madd_matmul [OF sv] c(2) by (simp add: shape33_def)
  show ?thesis
    unfolding stress_single_def Let_def
    using p(2)
    by (simp add: bindE_def at_state_def f as_float2_def p(1) c(1) pos1 cell1)
qed

lemma forward_at_stress:
  assumes "is_stress self"
    and "data KEY_POS = Some posT" and "entries posT = Float2 pos" and "rows3 pos"
    and "data KEY_CELL_SHIFT = Some csT" and "entries csT = Float2 cs" and "rows3 cs"
    and "length cs = length src"
    and "data KEY_EDGE_IDX = Some eiT" and "entries eiT = Long2 [src, dst]"
    and "length dst = length src"
    and "in_range src (length pos)" and "in_range dst (length pos)"
    and "data KEY_BATCH = Some batchT"
    and "data KEY_CELL = Some cellT" and "graph_cells self cellT = Inr cells"
    and "is_batch_data self \<longrightarrow>
           entries batchT = Long1 batch \<and> length batch = length pos
           \<and> in_range batch (length cells) \<and> batch \<noteq> []
           \<and> int (length cells) = Max (set batch) + 1"
    and "\<forall>g. shape33 (sv g)"
  shows "EdgePreprocess_forward_at sv self data =
     Inr (data(strain_key \<mapsto>
                 \<lparr>entries = (if is_batch_data self then Float3 (map sv [0..<length cells])
                              else Float2 (sv 0)),
                  requires_grad = True\<rparr>,
               KEY_EDGE_VEC \<mapsto>
                 \<lparr>entries = Float2 (edge_rows self (strained_pos self sv batch pos)
                                       (strained_cells sv cells) cs batch src dst),
                  requires_grad = True\<rparr>,
               KEY_EDGE_LENGTH \<mapsto>
                 \<lparr>entries = Float1 (map norm_row
                              (edge_rows self (strained_pos self sv batch pos)
                                 (strained_cells sv cells) cs batch src dst)),
                  requires_grad = True\<rparr>))"
proof -
  obtain cellV where v: "(if is_batch_data self then view_m1_3_3 cellT else view_3_3 cellT)
        = Inr cellV"
    and cv: "if is_batch_data self then entries cellV = Float3 cells
             else (\<exists>m. entries cellV = Float2 m \<and> cells = [m])"
    using graph_cells_view [OF assms(16)] by blast
  have sh: "\<forall>c\<in>set cells. shape33 c"
    using graph_cells_shape [OF assms(16)] by blast
  let ?pos1 = "strained_pos self sv batch pos"
  let ?cells1 = "strained_cells sv cells"
  let ?S = "\<lparr>entries = (if is_batch_data self then Float3 (map sv [0..<length cells])
                         else Float2 (sv 0)), requires_grad = True\<rparr>"
  let ?d1 = "data(strain_key \<mapsto> ?S)"
  let ?p1 = "\<lparr>entries = Float2 ?pos1, requires_grad = True\<rparr>"
  let ?c1 = "\<lparr>entries = (if is_batch_data self then Float3 ?cells1
                          else Float2 (map (strained (sv 0)) (cells ! 0))),
             requires_grad = True\<rparr>"
  have step: "(if is_batch_data self then stress_batch sv data posT cellV batchT
              else stress_single sv data posT cellV) = Inr (?d1, ?p1, ?c1)"
  proof (cases "is_batch_data self")
    case True
    then show ?thesis
      using stress_batch_eq [OF True _ _ _ _ _ assms(3,4) _ sh assms(18), of batchT batch cellV data]
        assms(17) cv by simp
  next
    case False
    then obtain m where m: "entries cellV = Float2 m" "cells = [m]"
      using cv by auto
    then have "shape33 m"
      using sh by simp
    then show ?thesis
      using stress_single_eq [OF False assms(3,4) m(1), of sv data batch] assms(18) False m(2)
      by simp
  qed
  have len1: "length ?pos1 = length pos" "length ?cells1 = length cells"
    by (simp_all add: strained_pos_def strained_cells_def)
  have r1: "rows3 ?pos1"
    by (simp add: rows3_def list_all_length strained_pos_def strained_length)
  have idx: "?d1 KEY_EDGE_IDX = Some eiT"
    using assms(9) by (simp add: KEY_defs)
  have c: "if is_batch_data self
               then entries ?c1 = Float3 ?cells1 \<and> entries batchT = Long1 batch
                    \<and> length batch = length ?pos1 \<and> in_range batch (length ?cells1)
               else (\<exists>m. entries ?c1 = Float2 m \<and> ?cells1 = [m])"
    using assms(17) cv by (auto simp: len1 strained_cells_def)
  have "edge_vectors self ?d1 ?p1 ?c1 csT batchT =
      Inr \<lparr>entries = Float2 (edge_rows self ?pos1 ?cells1 cs batch src dst),
           requires_grad = (requires_grad ?p1 \<or> requires_grad csT \<or> requires_grad ?c1)\<rparr>"
    using idx assms(10,11) _ r1 assms(6,7,8) _ _ c
    by (rule edge_vectors_eq) (simp_all add: len1 assms(12,13))
  then have ev: "edge_vectors self ?d1 ?p1 ?c1 csT batchT =
      Inr \<lparr>entries = Float2 (edge_rows self ?pos1 ?cells1 cs batch src dst),
           requires_grad = True\<rparr>"
    by simp
  show ?thesis
    unfolding EdgePreprocess_forward_at_def Let_def
    using assms(1) v step
    by (simp add: getitem_def assms(2,5,14,15) bindE_def at_state_def ev linalg_norm_def
        del: fun_upd_apply split del: if_split)
qed

lemma finite3_explicit:
  assumes "length v = 3" and "list_all (\<lambda>x. x \<noteq> None) v"
  shows "\<exists>a b c. v = [Some a, Some b, Some c]"
proof -
  obtain x y z where v: "v = [x, y, z]"
    using list3 [OF assms(1)] by blast
  then show ?thesis
    using assms(2) by auto
qed

lemma shape33_const: "shape33 zero33" "shape33 (eps_I eps)"
  by (simp_all add: shape33_def rows3_def zero33_def eps_I_def numeral_3_eq_3)

lemma strained_zero:
  assumes "length v = 3" and "list_all (\<lambda>x. x \<noteq> None) v"
  shows "strained zero33 v = v"
proof -
  obtain a b c where "v = [Some a, Some b, Some c]"
    using finite3_explicit [OF assms] by blast
  then show ?thesis
    by (simp add: strained_def zero33_def upt3 numeral_3_eq_3)
qed

lemma strained_eps:
  assumes "length v = 3" and "list_all (\<lambda>x. x \<noteq> None) v"
  shows "strained (eps_I eps) v = map (fl_mul (Some (1 + eps))) v"
proof -
  obtain a b c where "v = [Some a, Some b, Some c]"
    using finite3_explicit [OF assms] by blast
  then show ?thesis
    by (simp add: strained_def eps_I_def upt3 algebra_simps)
qed

lemma strained_pos_map:
  assumes "\<And>g v. length v = 3 \<Longrightarrow> list_all (\<lambda>x. x \<noteq> None) v \<Longrightarrow> strained (sv g) v = F v"
    and "rows3 pos" and "finite_rows pos"
  shows "strained_pos self sv batch pos = map F pos"
proof (rule nth_equalityI)
  show "length (strained_pos self sv batch pos) = length (map F pos)"
    by (simp add: strained_pos_def)
  fix k assume "k < length (strained_pos self sv batch pos)"
  then have k: "k < length pos"
    by (simp add: strained_pos_def)
  then have "length (pos ! k) = 3" "list_all (\<lambda>x. x \<noteq> None) (pos ! k)"
    using assms(2,3) by (simp_all add: rows3_nth finite_rows_def list_all_length)
  then show "strained_pos self sv batch pos ! k = map F pos ! k"
    using k assms(1) by (simp add: strained_pos_def)
qed

lemma strained_cells_map:
  assumes "\<And>g v. length v = 3 \<Longrightarrow> list_all (\<lambda>x. x \<noteq> None) v \<Longrightarrow> strained (sv g) v = F v"
    and "\<forall>c\<in>set cells. shape33 c" and "\<forall>c\<in>set cells. finite_rows c"
  shows "strained_cells sv cells = map (map F) cells"
proof (rule nth_equalityI)
  show "length (strained_cells sv cells) = length (map (map F) cells)"
    by (simp add: strained_cells_def)
  fix g assume "g < length (strained_cells sv cells)"
  then have g: "g < length cells"
    by (simp add: strained_cells_def)
  then have c: "rows3 (cells ! g)" "finite_rows (cells ! g)"
    using assms(2,3) by (auto simp: shape33_def)
  have "map (strained (sv g)) (cells ! g) = map F (cells ! g)"
  proof (rule map_cong [OF refl])
    fix v assume "v \<in> set (cells ! g)"
    then have "length v = 3" "list_all (\<lambda>x. x \<noteq> None) v"
      using c by (auto simp: rows3_def finite_rows_def list_all_iff)
    then show "strained (sv g) v = F v"
      by (rule assms(1))
  qed
  then show "strained_cells sv cells ! g = map (map F) cells ! g"
    using g by (simp add: strained_cells_def)
qed

lemma fl_mul_add: "fl_mul (Some c) (fl_add x y) = fl_add (fl_mul (Some c) x) (fl_mul (Some c) y)"
  by (cases x; cases y) (simp_all add: algebra_simps)

lemma fl_mul_sub: "fl_mul (Some c) (fl_sub x y) = fl_sub (fl_mul (Some c) x) (fl_mul (Some c) y)"
  by (cases x; cases y) (simp_all add: algebra_simps)

lemma fl_mul_mul: "fl_mul (Some c) (fl_mul x y) = fl_mul x (fl_mul (Some c) y)"
  by (cases x; cases y) simp_all

lemma fl_mul_sum:
  "fl_mul (Some c) (fl_sum (map f xs)) = fl_sum (map (\<lambda>i. fl_mul (Some c) (f i)) xs)"
  by (induction xs) (simp_all add: fl_mul_add)

lemma edge_rows_scale:
  assumes "length dst = length src" and "length cs = length src" and "rows3 pos"
    and "in_range src (length pos)" and "in_range dst (length pos)"
    and "\<forall>c\<in>set cells. shape33 c"
    and "\<forall>e<length src. owning_graph self batch (src ! e) < length cells"
  shows "edge_rows self (map (map (fl_mul (Some k))) pos)
           (map (map (map (fl_mul (Some k)))) cells) cs batch src dst =
         map (map (fl_mul (Some k))) (edge_rows self pos cells cs batch src dst)"
    (is "edge_rows self ?pos ?cells cs batch src dst = map (map (fl_mul (Some k))) ?ev")
proof (rule nth_equalityI)
  have r: "rows3 ?pos"
    using assms(3) by (simp add: rows3_def list_all_iff)
  have rng: "in_range src (length ?pos)" "in_range dst (length ?pos)"
    using assms(4,5) by simp_all
  show len: "length (edge_rows self ?pos ?cells cs batch src dst) =
      length (map (map (fl_mul (Some k))) ?ev)"
    by (simp add: edge_rows_length [OF assms(1,2)])
  fix e assume "e < length (edge_rows self ?pos ?cells cs batch src dst)"
  then have e: "e < length src"
    by (simp add: edge_rows_length [OF assms(1,2)])
  note L = edge_rows_nth [OF assms(1,2) r rng e, where self = self and cells = ?cells
      and batch = batch]
  note R = edge_rows_nth [OF assms(1,2,3,4,5) e, where self = self and cells = cells
      and batch = batch]
  have d: "nat (dst ! e) < length pos" "nat (src ! e) < length pos"
    using assms(1,4,5) e by (simp_all add: in_range_nth)
  then have lp: "length (pos ! nat (dst ! e)) = 3" "length (pos ! nat (src ! e)) = 3"
    using assms(3) by (simp_all add: rows3_nth)
  let ?g = "owning_graph self batch (src ! e)"
  have g: "?g < length cells"
    using assms(7) e by simp
  then have "shape33 (cells ! ?g)"
    using assms(6) by simp
  then have lc: "length (cells ! ?g) = 3" "\<And>i. i < 3 \<Longrightarrow> length (cells ! ?g ! i) = 3"
    by (simp_all add: shape33_def rows3_nth)
  show "edge_rows self ?pos ?cells cs batch src dst ! e =
      map (map (fl_mul (Some k))) ?ev ! e"
  proof (rule nth_equalityI)
    show "length (edge_rows self ?pos ?cells cs batch src dst ! e) =
        length (map (map (fl_mul (Some k))) ?ev ! e)"
      using e L(1) R(1) by (simp add: edge_rows_length [OF assms(1,2)])
    fix j assume "j < length (edge_rows self ?pos ?cells cs batch src dst ! e)"
    then have j: "j < 3"
      using L(1) by simp
    have "map (map (fl_mul (Some k))) ?ev ! e ! j = fl_mul (Some k) (?ev ! e ! j)"
      using e j R(1) by (simp add: edge_rows_length [OF assms(1,2)])
    also have "\<dots> = edge_rows self ?pos ?cells cs batch src dst ! e ! j"
      using j d lp g lc
      by (simp add: L(2) R(2) fl_mul_add fl_mul_sub fl_mul_sum fl_mul_mul upt3)
    finally show "edge_rows self ?pos ?cells cs batch src dst ! e ! j =
        map (map (fl_mul (Some k))) ?ev ! e ! j"
      by simp
  qed
qed

lemma sample_edge_rows:
  "edge_rows \<lparr>is_stress = s, is_batch_data = b\<rparr>
     [[Some 0, Some 0, Some 0], [Some (3 / 2), Some 0, Some 0]]
     [[[Some 4, Some 0, Some 0], [Some 0, Some 4, Some 0], [Some 0, Some 0, Some 4]]]
     [[Some 0, Some 0, Some 0], [Some 1, Some 0, Some 0]] [0, 0] [0, 1] [1, 0] =
   [[Some (3 / 2), Some 0, Some 0], [Some (5 / 2), Some 0, Some 0]]"
  by (simp add: edge_rows_def owning_graph_def msub_def vsub_def madd_def vadd_def vecmat_def
      upt3)

text \<open>
  Claim C1. In stress mode, on well-formed graph data with real positions and cells, forward
  creates the strain all zero, of shape (numGraphs, 3, 3) on batched data and (3, 3) on a
  single graph, requiring a gradient, and stores it under the strain key, whatever was
  there. The geometry is a function of the strain variable \<open>S\<close> through \<open>\<onehalf>(S + S\<^sup>T)\<close> only:
  positions and cells become \<open>x + x \<cdot> \<onehalf>(S + S\<^sup>T)\<close> and the edge vectors are those of the
  strained positions and cells. At the zero strain they are the edge vectors of stress-off
  mode; at \<open>S = \<epsilon> I\<close> every edge vector is \<open>1 + \<epsilon>\<close> times that (exactly, over the reals).
\<close>

theorem EdgePreprocess_forward_stress:
  assumes "is_stress self"
    and "data KEY_POS = Some posT" and "entries posT = Float2 pos" and "rows3 pos"
    and "data KEY_CELL_SHIFT = Some csT" and "entries csT = Float2 cs" and "rows3 cs"
    and "length cs = length src"
    and "data KEY_EDGE_IDX = Some eiT" and "entries eiT = Long2 [src, dst]"
    and "length dst = length src"
    and "in_range src (length pos)" and "in_range dst (length pos)"
    and "data KEY_BATCH = Some batchT"
    and "data KEY_CELL = Some cellT" and "graph_cells self cellT = Inr cells"
    and "is_batch_data self \<longrightarrow>
           entries batchT = Long1 batch \<and> length batch = length pos
           \<and> in_range batch (length cells) \<and> batch \<noteq> []
           \<and> int (length cells) = Max (set batch) + 1"
    and "finite_rows pos" and "\<forall>c\<in>set cells. finite_rows c"
  shows "EdgePreprocess_forward self data =
           Inr (stress_result data
                  (if is_batch_data self then Float3 (replicate (length cells) zero33)
                   else Float2 zero33)
                  (edge_rows self pos cells cs batch src dst))
       \<and> zero33 = [[Some 0, Some 0, Some 0], [Some 0, Some 0, Some 0], [Some 0, Some 0, Some 0]]
       \<and> (\<forall>sv. (\<forall>g. shape33 (sv g)) \<longrightarrow>
             EdgePreprocess_forward_at sv self data =
               Inr (stress_result data
                      (if is_batch_data self then Float3 (map sv [0..<length cells])
                       else Float2 (sv 0))
                      (edge_rows self (strained_pos self sv batch pos)
                         (strained_cells sv cells) cs batch src dst)))
       \<and> (\<forall>eps. EdgePreprocess_forward_at (\<lambda>g. eps_I eps) self data =
               Inr (stress_result data
                      (if is_batch_data self then Float3 (replicate (length cells) (eps_I eps))
                       else Float2 (eps_I eps))
                      (map (map (fl_mul (Some (1 + eps))))
                         (edge_rows self pos cells cs batch src dst))))"
proof -
  note at = forward_at_stress [OF assms(1-17), folded stress_result_def]
  have sh: "\<forall>c\<in>set cells. shape33 c"
    using graph_cells_shape [OF assms(16)] by blast
  have own: "\<forall>e<length src. owning_graph self batch (src ! e) < length cells"
  proof (intro allI impI)
    fix e assume e: "e < length src"
    show "owning_graph self batch (src ! e) < length cells"
    proof (cases "is_batch_data self")
      case True
      then have "nat (src ! e) < length batch" "in_range batch (length cells)"
        using assms(17,12) e by (simp_all add: in_range_nth)
      then show ?thesis
        using True by (simp add: owning_graph_def in_range_nth)
    next
      case False
      then have "length cells = 1"
        using graph_cells_view [OF assms(16)] by auto
      then show ?thesis
        using False by (simp add: owning_graph_def)
    qed
  qed
  have rep: "map (\<lambda>g. m) [0..<n] = replicate n m" for m :: "fl list list" and n
    by (simp add: map_replicate_const)
  have zero: "EdgePreprocess_forward self data =
           Inr (stress_result data
                  (if is_batch_data self then Float3 (replicate (length cells) zero33)
                   else Float2 zero33)
                  (edge_rows self pos cells cs batch src dst))"
  proof -
    have "strained_pos self (\<lambda>g. zero33) batch pos = map (\<lambda>v. v) pos"
      using strained_zero assms(4,18) by (rule strained_pos_map)
    moreover have "strained_cells (\<lambda>g. zero33) cells = map (map (\<lambda>v. v)) cells"
      using strained_zero sh assms(19) by (rule strained_cells_map)
    ultimately show ?thesis
      unfolding EdgePreprocess_forward_def
      using at [of "\<lambda>g. zero33"] by (simp add: shape33_const rep)
  qed
  have z: "zero33 = [[Some 0, Some 0, Some 0], [Some 0, Some 0, Some 0], [Some 0, Some 0, Some 0]]"
    by (simp add: zero33_def numeral_3_eq_3)
  have eps: "EdgePreprocess_forward_at (\<lambda>g. eps_I eps) self data =
               Inr (stress_result data
                      (if is_batch_data self then Float3 (replicate (length cells) (eps_I eps))
                       else Float2 (eps_I eps))
                      (map (map (fl_mul (Some (1 + eps))))
                         (edge_rows self pos cells cs batch src dst)))" for eps
  proof -
    have "strained_pos self (\<lambda>g. eps_I eps) batch pos = map (map (fl_mul (Some (1 + eps)))) pos"
      using strained_eps assms(4,18) by (rule strained_pos_map)
    moreover have "strained_cells (\<lambda>g. eps_I eps) cells =
        map (map (map (fl_mul (Some (1 + eps))))) cells"
      using strained_eps sh assms(19) by (rule strained_cells_map)
    ultimately show ?thesis
      using at [of "\<lambda>g. eps_I eps"]
        edge_rows_scale [OF assms(11,8,4,12,13) sh own, where k = "1 + eps"]
      by (simp add: shape33_const rep)
  qed
  show ?thesis
    using zero z at eps by blast
qed

theorem EdgePreprocess_forward_stress_witness:
  "EdgePreprocess_forward \<lparr>is_stress = True, is_batch_data = True\<rparr> sample_data =
     Inr (stress_result sample_data (Float3 [zero33])
            [[Some (3 / 2), Some 0, Some 0], [Some (5 / 2), Some 0, Some 0]])
   \<and> EdgePreprocess_forward \<lparr>is_stress = True, is_batch_data = False\<rparr> sample_data =
     Inr (stress_result sample_data (Float2 zero33)
            [[Some (3 / 2), Some 0, Some 0], [Some (5 / 2), Some 0, Some 0]])
   \<and> EdgePreprocess_forward_at (\<lambda>g. eps_I (1 / 10)) \<lparr>is_stress = True, is_batch_data = True\<rparr>
       sample_data =
     Inr (stress_result sample_data (Float3 [eps_I (1 / 10)])
            [[Some (33 / 20), Some 0, Some 0], [Some (11 / 4), Some 0, Some 0]])"
proof -
  let ?pos = "[[Some 0, Some 0, Some 0], [Some (3 / 2), Some 0, Some (0::real)]]"
  let ?cs = "[[Some 0, Some 0, Some 0], [Some 1, Some 0, Some (0::real)]]"
  let ?cells = "[[[Some 4, Some 0, Some 0], [Some 0, Some 4, Some 0],
                  [Some 0, Some 0, Some (4::real)]]]"
  have h: "rows3 ?pos" "rows3 ?cs" "length ?cs = length [0, 1::int]"
    "length [1, 0::int] = length [0, 1::int]"
    "in_range [0, 1] (length ?pos)" "in_range [1, 0] (length ?pos)"
    by (simp_all add: rows3_def in_range_def)
  have b: "is_batch_data \<lparr>is_stress = True, is_batch_data = b\<rparr> \<longrightarrow>
      entries sample_batch = Long1 [0, 0] \<and> length [0, 0::int] = length ?pos
      \<and> in_range [0, 0] (length ?cells) \<and> [0, 0::int] \<noteq> []
      \<and> int (length ?cells) = Max (set [0, 0]) + 1" for b
    by (simp add: sample_batch_def in_range_def)
  have e: "entries sample_pos = Float2 ?pos" "entries sample_shift = Float2 ?cs"
    "entries sample_edges = Long2 [[0, 1], [1, 0]]"
    by (simp_all add: sample_pos_def sample_shift_def sample_edges_def)
  have n: "is_stress \<lparr>is_stress = True, is_batch_data = b\<rparr>" for b
    by simp
  have f: "finite_rows ?pos" "\<forall>c\<in>set ?cells. finite_rows c"
    by (simp_all add: finite_rows_def del: not_None_eq)
  note t = EdgePreprocess_forward_stress [OF n sample_lookup(1) e(1) h(1) sample_lookup(3)
      e(2) h(2) h(3) sample_lookup(4) e(3) h(4) h(5) h(6) sample_lookup(5) sample_lookup(2)]
  show ?thesis
    using t [OF sample_cells(1) b f] t [OF sample_cells(2) b f]
    by (simp add: sample_edge_rows)
qed

end
